theory Spec2Isabelle
  imports Main "HOL-Library.Word"
begin

section \<open>Values of the JavaScript program\<close>

text \<open>
  The program consists of \<^verbatim>\<open>zk-crypto.js\<close> (base64url helpers, the key derivation
  \<^verbatim>\<open>HKDF\<close>, \<^verbatim>\<open>deriveId\<close>, \<^verbatim>\<open>encryptJson\<close>, \<^verbatim>\<open>verifyAndDecrypt\<close>) and
  \<^verbatim>\<open>state-sync.js\<close> (\<^verbatim>\<open>saveStateInternal\<close>, the debounced \<^verbatim>\<open>saveState\<close>, \<^verbatim>\<open>loadState\<close>).

  A thrown JavaScript \<^verbatim>\<open>Error\<close> is a value \<open>Error msg\<close>; only its \<^verbatim>\<open>message\<close> is ever
  inspected by the program. A \<^verbatim>\<open>Uint8Array\<close> is a list of 8-bit words. JavaScript values that
  travel through \<^verbatim>\<open>JSON\<close> are the datatype \<open>jsval\<close>; numbers are restricted to integers
  (the values \<^verbatim>\<open>Date.now()\<close>, the version field and HTTP status codes take), and strings
  are lists of 8-bit characters.
\<close>

datatype exn = Error (message: string)

type_synonym bytes = "8 word list"

datatype jsval =
    JUndefined
  | JNull
  | JBool bool
  | JNum int
  | JStr string
  | JArr "jsval list"
  | JObj "(string \<times> jsval) list"

text \<open>Truthiness, \<^verbatim>\<open>typeof\<close> and property access \<^verbatim>\<open>x.k\<close> (on a non-object: \<^verbatim>\<open>undefined\<close>;
  the program guards every access on \<^verbatim>\<open>null\<close>/\<^verbatim>\<open>undefined\<close> by a truthiness test).\<close>

fun truthy :: "jsval \<Rightarrow> bool" where
  "truthy JUndefined = False"
| "truthy JNull = False"
| "truthy (JBool b) = b"
| "truthy (JNum n) = (n \<noteq> 0)"
| "truthy (JStr s) = (s \<noteq> [])"
| "truthy (JArr xs) = True"
| "truthy (JObj kvs) = True"

fun typeof :: "jsval \<Rightarrow> string" where
  "typeof JUndefined = ''undefined''"
| "typeof JNull = ''object''"
| "typeof (JBool b) = ''boolean''"
| "typeof (JNum n) = ''number''"
| "typeof (JStr s) = ''string''"
| "typeof (JArr xs) = ''object''"
| "typeof (JObj kvs) = ''object''"

fun getProp :: "jsval \<Rightarrow> string \<Rightarrow> jsval" where
  "getProp (JObj kvs) k = (case map_of kvs k of Some v \<Rightarrow> v | None \<Rightarrow> JUndefined)"
| "getProp v k = JUndefined"

text \<open>Replacing one property of an object (used to state what happens when a field of an
  envelope is altered).\<close>

fun setProp :: "jsval \<Rightarrow> string \<Rightarrow> jsval \<Rightarrow> jsval" where
  "setProp (JObj kvs) k x = JObj (map (\<lambda>(k', v). if k' = k then (k', x) else (k', v)) kvs)"
| "setProp v k x = v"

text \<open>The string a value of type string holds (only applied after a \<^verbatim>\<open>typeof\<close> test).\<close>

fun asString :: "jsval \<Rightarrow> string" where
  "asString (JStr s) = s"
| "asString v = []"

text \<open>Decimal rendering of a number, as a template literal \<^verbatim>\<open>${n}\<close> produces it.\<close>

fun digitsOf :: "nat \<Rightarrow> string" where
  "digitsOf n = (if n < 10 then [''0123456789'' ! n]
                 else digitsOf (n div 10) @ [''0123456789'' ! (n mod 10)])"

declare digitsOf.simps [simp del]

definition numToString :: "int \<Rightarrow> string" where
  "numToString n = (if n < 0 then CHR ''-'' # digitsOf (nat (- n)) else digitsOf (nat n))"

fun toStr :: "jsval \<Rightarrow> string" where
  "toStr (JNum n) = numToString n"
| "toStr (JStr s) = s"
| "toStr JUndefined = ''undefined''"
| "toStr JNull = ''null''"
| "toStr (JBool b) = (if b then ''true'' else ''false'')"
| "toStr (JArr xs) = ''[object Array]''"
| "toStr (JObj kvs) = ''[object Object]''"

text \<open>\<^verbatim>\<open>s.includes(sub)\<close>.\<close>

fun startsWith :: "string \<Rightarrow> string \<Rightarrow> bool" where
  "startsWith s [] = True"
| "startsWith [] (c # cs) = False"
| "startsWith (x # xs) (c # cs) = (x = c \<and> startsWith xs cs)"

fun includesStr :: "string \<Rightarrow> string \<Rightarrow> bool" where
  "includesStr [] sub = (sub = [])"
| "includesStr (x # xs) sub = (startsWith (x # xs) sub \<or> includesStr xs sub)"

section \<open>base64url (zk-crypto.js, lines 7-19)\<close>

text \<open>
  \<^verbatim>\<open>btoa\<close> and \<^verbatim>\<open>atob\<close> are browser built-ins; they are modelled from their standard
  (RFC 4648 base64 with padding for \<^verbatim>\<open>btoa\<close>, the WHATWG forgiving-base64 decoder for
  \<^verbatim>\<open>atob\<close>). \<open>btoa bs\<close> stands for \<^verbatim>\<open>btoa(String.fromCharCode(...bs))\<close>.
\<close>

definition b64char :: "nat \<Rightarrow> char" where
  "b64char n = (if n < 26 then char_of (65 + n) else if n < 52 then char_of (71 + n)
     else if n < 62 then char_of (n - 4) else if n = 62 then CHR ''+'' else CHR ''/'')"

definition b64val :: "char \<Rightarrow> nat option" where
  "b64val c = (let k = (of_char c :: nat) in
     if 65 \<le> k \<and> k \<le> 90 then Some (k - 65)
     else if 97 \<le> k \<and> k \<le> 122 then Some (k - 71)
     else if 48 \<le> k \<and> k \<le> 57 then Some (k + 4)
     else if k = 43 then Some 62
     else if k = 47 then Some 63 else None)"

fun sextets :: "bytes \<Rightarrow> nat list" where
  "sextets (a # b # c # rest) =
     [unat a div 4, (unat a mod 4) * 16 + unat b div 16,
      (unat b mod 16) * 4 + unat c div 64, unat c mod 64] @ sextets rest"
| "sextets [a, b] = [unat a div 4, (unat a mod 4) * 16 + unat b div 16, (unat b mod 16) * 4]"
| "sextets [a] = [unat a div 4, (unat a mod 4) * 16]"
| "sextets [] = []"

definition btoa :: "bytes \<Rightarrow> string" where
  "btoa bs = map b64char (sextets bs) @ replicate ((3 - length bs mod 3) mod 3) (CHR ''='')"

definition asciiWhitespace :: "char \<Rightarrow> bool" where
  "asciiWhitespace c = ((of_char c :: nat) \<in> {9, 10, 12, 13, 32})"

fun octets :: "nat list \<Rightarrow> bytes" where
  "octets (p # q # r # s # rest) =
     [of_nat (p * 4 + q div 16), of_nat ((q mod 16) * 16 + r div 4), of_nat ((r mod 4) * 64 + s)]
     @ octets rest"
| "octets [p, q, r] = [of_nat (p * 4 + q div 16), of_nat ((q mod 16) * 16 + r div 4)]"
| "octets [p, q] = [of_nat (p * 4 + q div 16)]"
| "octets [p] = []"
| "octets [] = []"

definition stripPadding :: "string \<Rightarrow> string" where
  "stripPadding d =
     (if length d mod 4 = 0 \<and> d \<noteq> [] \<and> last d = CHR ''='' then
        (if butlast d \<noteq> [] \<and> last (butlast d) = CHR ''='' then butlast (butlast d) else butlast d)
      else d)"

definition atob :: "string \<Rightarrow> exn + bytes" where
  "atob d = (let d1 = filter (\<lambda>c. \<not> asciiWhitespace c) d; d2 = stripPadding d1 in
     if length d2 mod 4 = 1 then Inl (Error ''InvalidCharacterError'')
     else case those (map b64val d2) of
            None \<Rightarrow> Inl (Error ''InvalidCharacterError'')
          | Some vs \<Rightarrow> Inr (octets vs))"

text \<open>\<^verbatim>\<open>s.replace(/c/g, r)\<close> for a single character \<open>c\<close>.\<close>

definition replaceAll :: "char \<Rightarrow> string \<Rightarrow> string \<Rightarrow> string" where
  "replaceAll c r s = concat (map (\<lambda>x. if x = c then r else [x]) s)"

definition base64urlEncode :: "bytes \<Rightarrow> string" where
  "base64urlEncode bs = (let base64 = btoa bs in
     replaceAll (CHR ''='') [] (replaceAll (CHR ''/'') ''_'' (replaceAll (CHR ''+'') ''-'' base64)))"

definition base64urlDecode :: "string \<Rightarrow> exn + bytes" where
  "base64urlDecode str =
     (let base64 = replaceAll (CHR ''_'') ''/'' (replaceAll (CHR ''-'') ''+'' str);
          padded = base64 @ replicate ((4 - length base64 mod 4) mod 4) (CHR ''='')
      in atob padded)"

definition concatUint8Arrays :: "bytes list \<Rightarrow> bytes" where
  "concatUint8Arrays arrays = concat arrays"

section \<open>The platform and the world\<close>

text \<open>
  The cryptographic provider (\<^verbatim>\<open>crypto.subtle\<close>), \<^verbatim>\<open>TextEncoder\<close>/\<^verbatim>\<open>TextDecoder\<close> and
  \<^verbatim>\<open>JSON\<close> are not code of the repository: they are parameters of the model, a record of
  functions. A \<^verbatim>\<open>CryptoKey\<close> is represented by its raw key material (every key the program
  imports is imported with exactly the usage of the operation it is then passed to).
  Each operation may reject; the rejection is an \<open>exn\<close>.
\<close>

record platform =
  importKey :: "string \<Rightarrow> bytes \<Rightarrow> exn + bytes"
  pbkdf2DeriveKey :: "bytes \<Rightarrow> nat \<Rightarrow> bytes \<Rightarrow> exn + bytes"
  hkdfDeriveBits :: "bytes \<Rightarrow> bytes \<Rightarrow> bytes \<Rightarrow> int \<Rightarrow> exn + bytes"
  aesGcmEncrypt :: "bytes \<Rightarrow> bytes \<Rightarrow> bytes \<Rightarrow> exn + bytes"
  aesGcmDecrypt :: "bytes \<Rightarrow> bytes \<Rightarrow> bytes \<Rightarrow> exn + bytes"
  hmacSign :: "bytes \<Rightarrow> bytes \<Rightarrow> exn + bytes"
  hmacVerify :: "bytes \<Rightarrow> bytes \<Rightarrow> bytes \<Rightarrow> exn + bool"
  textEncode :: "string \<Rightarrow> bytes"
  textDecode :: "bytes \<Rightarrow> string"
  jsonStringify :: "jsval \<Rightarrow> string"
  jsonParse :: "string \<Rightarrow> exn + jsval"

text \<open>
  Argument order: \<open>importKey algorithm keyData\<close>; \<open>pbkdf2DeriveKey salt iterations key\<close>;
  \<open>hkdfDeriveBits salt info key lengthInBits\<close>; \<open>aesGcmEncrypt iv key plaintext\<close>;
  \<open>aesGcmDecrypt iv key ciphertext\<close>; \<open>hmacSign key data\<close>;
  \<open>hmacVerify key signature data\<close>.
\<close>

datatype call =
    CallImportKey string bytes
  | CallDeriveKey bytes nat bytes
  | CallDeriveBits bytes bytes bytes int
  | CallEncrypt bytes bytes bytes
  | CallDecrypt bytes bytes bytes
  | CallSign bytes bytes
  | CallVerify bytes bytes bytes

record request =
  verb :: string
  url :: string
  headers :: "(string \<times> string) list"
  body :: "string option"

text \<open>An HTTP response: \<open>json\<close> is what \<^verbatim>\<open>response.json()\<close> resolves or rejects to.\<close>

record response =
  status :: int
  statusText :: string
  json :: "exn + jsval"

definition ok :: "response \<Rightarrow> bool" where
  "ok r = (200 \<le> status r \<and> status r \<le> 299)"

text \<open>The closure the timer of \<^verbatim>\<open>saveState\<close> captures (state-sync.js, lines 89-98).\<close>

record task =
  taskPassphrase :: string
  taskState :: jsval
  taskId :: string

text \<open>
  Everything outside the program that it reads or changes:
  \<^item> \<open>calls\<close>: the \<^verbatim>\<open>crypto.subtle\<close> operations invoked so far, newest first;
  \<^item> \<open>entropy\<close>, \<open>drawn\<close>: the bytes \<^verbatim>\<open>crypto.getRandomValues\<close> hands out and how many
    have been handed out;
  \<^item> \<open>clock\<close>: \<^verbatim>\<open>Date.now()\<close>;
  \<^item> \<open>server\<close>, \<open>sent\<close>: the remote store, answering a request given the requests sent
    before it (so every sequence of responses is some server), and the requests sent so
    far, newest first; a rejected \<^verbatim>\<open>fetch\<close> is an \<open>exn\<close>;
  \<^item> \<open>appCheck\<close>: \<open>None\<close> when \<^verbatim>\<open>firebase.appCheck\<close> is unavailable, otherwise the
    outcome of \<^verbatim>\<open>getToken(true)\<close> (the token string, if any);
  \<^item> \<open>baseUrl\<close>: \<^verbatim>\<open>window.FB_FUNCTION_BASE\<close>;
  \<^item> \<open>debounceMs\<close>, \<open>debounceTimers\<close>: the module variables of state-sync.js;
  \<^item> \<open>timers\<close>, \<open>nextTimer\<close>: the pending timeouts of the runtime (handle, due time,
    callback) and the next handle;
  \<^item> \<open>saves\<close>: the arguments of every \<^verbatim>\<open>saveStateInternal\<close> invocation so far, newest
    first (a trace, read by no code).
\<close>

record world =
  calls :: "call list"
  entropy :: "nat \<Rightarrow> 8 word"
  drawn :: nat
  clock :: int
  server :: "request list \<Rightarrow> request \<Rightarrow> exn + response"
  sent :: "request list"
  appCheck :: "(exn + string option) option"
  appCheckErrorLogged :: bool
  baseUrl :: string
  debounceMs :: int
  debounceTimers :: "string \<Rightarrow> nat option"
  timers :: "(nat \<times> int \<times> task) list"
  nextTimer :: nat
  saves :: "(string \<times> jsval) list"

text \<open>
  An asynchronous computation takes the world and returns either the thrown exception or
  its value, with the world it leaves. \<open>bindE\<close> is sequencing (\<^verbatim>\<open>await\<close>), \<open>catchE\<close> is
  \<^verbatim>\<open>try { ... } catch (error) { ... }\<close>.
\<close>

type_synonym 'a io = "world \<Rightarrow> (exn + 'a) \<times> world"

definition returnE :: "'a \<Rightarrow> 'a io" where
  "returnE x w = (Inr x, w)"

definition throwE :: "exn \<Rightarrow> 'a io" where
  "throwE e w = (Inl e, w)"

definition liftE :: "exn + 'a \<Rightarrow> 'a io" where
  "liftE r w = (r, w)"

definition bindE :: "'a io \<Rightarrow> ('a \<Rightarrow> 'b io) \<Rightarrow> 'b io" where
  "bindE m f w = (case m w of (Inl e, w') \<Rightarrow> (Inl e, w') | (Inr x, w') \<Rightarrow> f x w')"

definition catchE :: "'a io \<Rightarrow> (exn \<Rightarrow> 'a io) \<Rightarrow> 'a io" where
  "catchE m h w = (case m w of (Inl e, w') \<Rightarrow> h e w' | (Inr x, w') \<Rightarrow> (Inr x, w'))"

definition getRandomValues :: "nat \<Rightarrow> bytes io" where
  "getRandomValues n w = (Inr (map (entropy w) [drawn w ..< drawn w + n]), w\<lparr>drawn := drawn w + n\<rparr>)"

definition dateNow :: "int io" where
  "dateNow w = (Inr (clock w), w)"

definition subtleImportKey :: "platform \<Rightarrow> string \<Rightarrow> bytes \<Rightarrow> bytes io" where
  "subtleImportKey P alg raw w = (importKey P alg raw, w\<lparr>calls := CallImportKey alg raw # calls w\<rparr>)"

definition subtleDeriveKey :: "platform \<Rightarrow> bytes \<Rightarrow> nat \<Rightarrow> bytes \<Rightarrow> bytes io" where
  "subtleDeriveKey P salt iterations key w =
     (pbkdf2DeriveKey P salt iterations key, w\<lparr>calls := CallDeriveKey salt iterations key # calls w\<rparr>)"

definition subtleDeriveBits :: "platform \<Rightarrow> bytes \<Rightarrow> bytes \<Rightarrow> bytes \<Rightarrow> int \<Rightarrow> bytes io" where
  "subtleDeriveBits P salt info key len w =
     (hkdfDeriveBits P salt info key len, w\<lparr>calls := CallDeriveBits salt info key len # calls w\<rparr>)"

definition subtleEncrypt :: "platform \<Rightarrow> bytes \<Rightarrow> bytes \<Rightarrow> bytes \<Rightarrow> bytes io" where
  "subtleEncrypt P iv key pt w = (aesGcmEncrypt P iv key pt, w\<lparr>calls := CallEncrypt iv key pt # calls w\<rparr>)"

definition subtleDecrypt :: "platform \<Rightarrow> bytes \<Rightarrow> bytes \<Rightarrow> bytes \<Rightarrow> bytes io" where
  "subtleDecrypt P iv key ct w = (aesGcmDecrypt P iv key ct, w\<lparr>calls := CallDecrypt iv key ct # calls w\<rparr>)"

definition subtleSign :: "platform \<Rightarrow> bytes \<Rightarrow> bytes \<Rightarrow> bytes io" where
  "subtleSign P key d w = (hmacSign P key d, w\<lparr>calls := CallSign key d # calls w\<rparr>)"

definition subtleVerify :: "platform \<Rightarrow> bytes \<Rightarrow> bytes \<Rightarrow> bytes \<Rightarrow> bool io" where
  "subtleVerify P key sig d w = (hmacVerify P key sig d, w\<lparr>calls := CallVerify key sig d # calls w\<rparr>)"

section \<open>Key derivation and the envelope codec (zk-crypto.js, lines 38-214)\<close>

definition HKDF :: "platform \<Rightarrow> string \<Rightarrow> string \<Rightarrow> int \<Rightarrow> string \<Rightarrow> bytes io" where
  "HKDF P passphrase info lengthBytes saltB64u =
     bindE (liftE (base64urlDecode saltB64u)) (\<lambda>salt.
     bindE (subtleImportKey P ''PBKDF2'' (textEncode P passphrase)) (\<lambda>keyMaterial.
     bindE (subtleDeriveKey P salt 100000 keyMaterial) (\<lambda>derivedKey.
     let infoBytes = textEncode P info in
     bindE (subtleDeriveBits P salt infoBytes derivedKey (lengthBytes * 8)) (\<lambda>derivedBits.
     returnE derivedBits))))"

definition deriveId :: "platform \<Rightarrow> string \<Rightarrow> string io" where
  "deriveId P passphrase =
     bindE (getRandomValues 16) (\<lambda>salt.
     let saltB64u = base64urlEncode salt in
     bindE (HKDF P passphrase ''id'' 16 saltB64u) (\<lambda>idBytes.
     returnE (base64urlEncode idBytes)))"

definition encryptJson :: "platform \<Rightarrow> jsval \<Rightarrow> string \<Rightarrow> jsval io" where
  "encryptJson P obj passphrase =
     bindE (getRandomValues 16) (\<lambda>salt.
     bindE (getRandomValues 12) (\<lambda>iv.
     let saltB64u = base64urlEncode salt in
     bindE (HKDF P passphrase ''enc'' 32 saltB64u) (\<lambda>encKey.
     bindE (HKDF P passphrase ''mac'' 32 saltB64u) (\<lambda>macKey.
     bindE (subtleImportKey P ''AES-GCM'' encKey) (\<lambda>cryptoKey.
     bindE (subtleImportKey P ''HMAC'' macKey) (\<lambda>hmacKey.
     let plaintext = textEncode P (jsonStringify P obj) in
     bindE (subtleEncrypt P iv cryptoKey plaintext) (\<lambda>ct.
     let macData = concatUint8Arrays [salt, iv, ct] in
     bindE (subtleSign P hmacKey macData) (\<lambda>macBytes.
     bindE dateNow (\<lambda>now.
     returnE (JObj [(''v'', JNum 1), (''ts'', JNum now), (''salt'', JStr saltB64u),
                    (''iv'', JStr (base64urlEncode iv)), (''ct'', JStr (base64urlEncode ct)),
                    (''mac'', JStr (base64urlEncode macBytes))]))))))))))"

definition invalidStructure :: "jsval \<Rightarrow> bool" where
  "invalidStructure payload =
     (\<not> truthy payload \<or> typeof payload \<noteq> ''object'' \<or>
      getProp payload ''v'' \<noteq> JNum 1 \<or>
      typeof (getProp payload ''salt'') \<noteq> ''string'' \<or>
      typeof (getProp payload ''iv'') \<noteq> ''string'' \<or>
      typeof (getProp payload ''ct'') \<noteq> ''string'' \<or>
      typeof (getProp payload ''mac'') \<noteq> ''string'' \<or>
      typeof (getProp payload ''ts'') \<noteq> ''number'')"

definition verifyAndDecrypt :: "platform \<Rightarrow> jsval \<Rightarrow> string \<Rightarrow> jsval io" where
  "verifyAndDecrypt P payload passphrase =
     catchE
       (if invalidStructure payload then throwE (Error ''Invalid payload structure'')
        else
          bindE (liftE (base64urlDecode (asString (getProp payload ''salt'')))) (\<lambda>salt.
          bindE (liftE (base64urlDecode (asString (getProp payload ''iv'')))) (\<lambda>iv.
          bindE (liftE (base64urlDecode (asString (getProp payload ''ct'')))) (\<lambda>ct.
          bindE (liftE (base64urlDecode (asString (getProp payload ''mac'')))) (\<lambda>mac.
          let saltB64u = asString (getProp payload ''salt'') in
          bindE (HKDF P passphrase ''enc'' 32 saltB64u) (\<lambda>encKey.
          bindE (HKDF P passphrase ''mac'' 32 saltB64u) (\<lambda>macKey.
          bindE (subtleImportKey P ''AES-GCM'' encKey) (\<lambda>cryptoKey.
          bindE (subtleImportKey P ''HMAC'' macKey) (\<lambda>hmacKey.
          let macData = concatUint8Arrays [salt, iv, ct] in
          bindE (subtleVerify P hmacKey mac macData) (\<lambda>macValid.
          if \<not> macValid then throwE (Error ''HMAC verification failed'')
          else
            bindE (subtleDecrypt P iv cryptoKey ct) (\<lambda>plaintext.
            let jsonStr = textDecode P plaintext in
            liftE (jsonParse P jsonStr))))))))))))
       (\<lambda>error. throwE (Error (''Decryption failed: '' @ message error)))"

text \<open>\<open>invalidStructure\<close> is the condition of the structural check of
  \<^verbatim>\<open>verifyAndDecrypt\<close> (lines 150-156), named so that it can be referred to.\<close>

section \<open>The sync client (state-sync.js)\<close>

definition setCloudSaveDebounce :: "int \<Rightarrow> unit io" where
  "setCloudSaveDebounce ms w = (Inr (), w\<lparr>debounceMs := ms\<rparr>)"

definition fetch :: "request \<Rightarrow> response io" where
  "fetch req w = (server w (sent w) req, w\<lparr>sent := req # sent w\<rparr>)"

definition getBaseUrl :: "string io" where
  "getBaseUrl w = (Inr (baseUrl w), w)"

text \<open>Lines 18-33. \<^verbatim>\<open>token?.token || null\<close>: a missing or empty token is \<^verbatim>\<open>null\<close>.\<close>

definition getAppCheckToken :: "string option io" where
  "getAppCheckToken w =
     (case appCheck w of
        None \<Rightarrow> (Inr None, w)
      | Some (Inr tok) \<Rightarrow>
          (Inr (case tok of None \<Rightarrow> None | Some t \<Rightarrow> if t = [] then None else Some t), w)
      | Some (Inl e) \<Rightarrow> (Inr None, w\<lparr>appCheckErrorLogged := True\<rparr>))"

definition appCheckHeader :: "string option \<Rightarrow> (string \<times> string) list" where
  "appCheckHeader token = (case token of None \<Rightarrow> [] | Some t \<Rightarrow> [(''X-Firebase-AppCheck'', t)])"

definition getReq :: "string \<Rightarrow> (string \<times> string) list \<Rightarrow> request" where
  "getReq u hs = \<lparr>verb = ''GET'', url = u, headers = hs, body = None\<rparr>"

definition putReq :: "string \<Rightarrow> (string \<times> string) list \<Rightarrow> string \<Rightarrow> request" where
  "putReq u hs b = \<lparr>verb = ''PUT'', url = u, headers = hs, body = Some b\<rparr>"

text \<open>Lines 38-75.\<close>

definition saveStateInternal :: "platform \<Rightarrow> string \<Rightarrow> jsval \<Rightarrow> unit io" where
  "saveStateInternal P passphrase stateObj =
     bindE (\<lambda>w. (Inr (), w\<lparr>saves := (passphrase, stateObj) # saves w\<rparr>)) (\<lambda>_.
     bindE (deriveId P passphrase) (\<lambda>id.
     bindE (encryptJson P stateObj passphrase) (\<lambda>encrypted.
     bindE getAppCheckToken (\<lambda>token.
     let hs = (''Content-Type'', ''application/json'') # appCheckHeader token in
     bindE getBaseUrl (\<lambda>base.
     let ts = getProp encrypted ''ts'' in
     bindE (fetch (putReq (base @ ''/'' @ id @ ''/v1/'' @ toStr ts) hs (jsonStringify P encrypted)))
       (\<lambda>versionResponse.
     if \<not> ok versionResponse then
       throwE (Error (''Failed to save version: '' @ numToString (status versionResponse)
                      @ '' '' @ statusText versionResponse))
     else
       bindE (fetch (putReq (base @ ''/'' @ id @ ''/v1/latest'') hs
                       (jsonStringify P (JObj [(''ts'', ts)]))))
         (\<lambda>latestResponse.
       if \<not> ok latestResponse then
         throwE (Error (''Failed to update latest pointer: '' @ numToString (status latestResponse)
                        @ '' '' @ statusText latestResponse))
       else returnE ())))))))"

text \<open>\<^verbatim>\<open>setTimeout\<close> and \<^verbatim>\<open>clearTimeout\<close> of the runtime.\<close>

definition setTimeout :: "task \<Rightarrow> int \<Rightarrow> nat io" where
  "setTimeout cb ms w =
     (Inr (nextTimer w),
      w\<lparr>timers := timers w @ [(nextTimer w, clock w + ms, cb)], nextTimer := Suc (nextTimer w)\<rparr>)"

definition clearTimeout :: "nat \<Rightarrow> unit io" where
  "clearTimeout h w = (Inr (), w\<lparr>timers := filter (\<lambda>t. fst t \<noteq> h) (timers w)\<rparr>)"

text \<open>Lines 80-101.\<close>

definition saveState :: "platform \<Rightarrow> string \<Rightarrow> jsval \<Rightarrow> unit io" where
  "saveState P passphrase stateObj =
     bindE (deriveId P passphrase) (\<lambda>id.
     bindE (\<lambda>w. case debounceTimers w id of
                   Some t \<Rightarrow> clearTimeout t w
                 | None \<Rightarrow> (Inr (), w)) (\<lambda>_.
     bindE (\<lambda>w. setTimeout \<lparr>taskPassphrase = passphrase, taskState = stateObj, taskId = id\<rparr>
                   (debounceMs w) w) (\<lambda>timer.
     (\<lambda>w. (Inr (), w\<lparr>debounceTimers := (debounceTimers w)(id \<mapsto> timer)\<rparr>)))))"

text \<open>The callback of the timer (lines 89-98): in both branches the registry entry of the
  captured \<open>id\<close> is deleted; a failure is rethrown.\<close>

definition deleteTimer :: "string \<Rightarrow> unit io" where
  "deleteTimer ident w = (Inr (), w\<lparr>debounceTimers := (debounceTimers w)(ident := None)\<rparr>)"

definition timerCallback :: "platform \<Rightarrow> task \<Rightarrow> unit io" where
  "timerCallback P t =
     catchE
       (bindE (saveStateInternal P (taskPassphrase t) (taskState t)) (\<lambda>_. deleteTimer (taskId t)))
       (\<lambda>error. bindE (deleteTimer (taskId t)) (\<lambda>_. throwE error))"

text \<open>
  The runtime's timer loop: \<open>advanceTo P t\<close> lets time pass until \<open>t\<close>. The timeouts that
  are due by then fire in the order of their due times (ties in the order they were set);
  one that an earlier callback cleared does not fire. The clock stands at the due time
  while the callback runs. A rejection of the callback is unobserved.
\<close>

fun fireAll :: "platform \<Rightarrow> (nat \<times> int \<times> task) list \<Rightarrow> world \<Rightarrow> world" where
  "fireAll P [] w = w"
| "fireAll P ((h, due, cb) # rest) w =
     (if h \<in> fst ` set (timers w) then
        fireAll P rest
          (snd (timerCallback P cb
                  (w\<lparr>timers := filter (\<lambda>t. fst t \<noteq> h) (timers w), clock := max (clock w) due\<rparr>)))
      else fireAll P rest w)"

definition advanceTo :: "platform \<Rightarrow> int \<Rightarrow> world \<Rightarrow> world" where
  "advanceTo P t w =
     (let w' = fireAll P (sort_key (\<lambda>x. fst (snd x)) (filter (\<lambda>x. fst (snd x) \<le> t) (timers w))) w
      in w'\<lparr>clock := max (clock w') t\<rparr>)"

text \<open>The result of \<^verbatim>\<open>loadState\<close>: \<open>state\<close> is \<open>JNull\<close> when absent, \<open>error\<close> is \<open>None\<close>
  for \<^verbatim>\<open>null\<close>.\<close>

record outcome =
  state :: jsval
  error :: "string option"

definition networkOutcome :: outcome where
  "networkOutcome = \<lparr>state = JNull, error = Some ''network''\<rparr>"

definition integrityOutcome :: outcome where
  "integrityOutcome = \<lparr>state = JNull, error = Some ''integrity''\<rparr>"

definition noStateOutcome :: outcome where
  "noStateOutcome = \<lparr>state = JNull, error = None\<rparr>"

definition isDecryptionError :: "exn \<Rightarrow> bool" where
  "isDecryptionError e =
     (includesStr (message e) ''Decryption failed'' \<or> includesStr (message e) ''HMAC verification failed'')"

text \<open>Lines 119-135: the latest pointer. \<open>Inl\<close> is a \<^verbatim>\<open>return\<close> from \<^verbatim>\<open>loadState\<close>,
  \<open>Inr\<close> the value of \<^verbatim>\<open>latestTs\<close> with which it goes on.\<close>

definition latestPointer :: "string \<Rightarrow> string \<Rightarrow> (string \<times> string) list \<Rightarrow> (outcome + int option) io" where
  "latestPointer base ident hs =
     catchE
       (bindE (fetch (getReq (base @ ''/'' @ ident @ ''/v1/latest'') hs)) (\<lambda>latestResponse.
        if ok latestResponse then
          bindE (liftE (json latestResponse)) (\<lambda>latestData.
          returnE (Inr (if truthy latestData then
                          (case getProp latestData ''ts'' of JNum n \<Rightarrow> Some n | _ \<Rightarrow> None)
                        else None)))
        else if status latestResponse \<noteq> 404 then
          throwE (Error (''Latest pointer fetch failed: '' @ numToString (status latestResponse)))
        else returnE (Inr None)))
       (\<lambda>error. returnE (Inl networkOutcome))"

text \<open>Lines 138-160: the version the pointer names. \<open>Some\<close> is a \<^verbatim>\<open>return\<close>, \<open>None\<close>
  falls through to the list fallback.\<close>

definition latestVersion ::
  "platform \<Rightarrow> string \<Rightarrow> string \<Rightarrow> string \<Rightarrow> (string \<times> string) list \<Rightarrow> int option
     \<Rightarrow> outcome option io" where
  "latestVersion P passphrase base ident hs latestTs =
     (case latestTs of
        None \<Rightarrow> returnE None
      | Some ts \<Rightarrow>
          catchE
            (bindE (fetch (getReq (base @ ''/'' @ ident @ ''/v1/'' @ numToString ts) hs))
               (\<lambda>versionResponse.
             if ok versionResponse then
               bindE (liftE (json versionResponse)) (\<lambda>versionData.
               bindE (verifyAndDecrypt P versionData passphrase) (\<lambda>decrypted.
               returnE (Some \<lparr>state = decrypted, error = None\<rparr>)))
             else if status versionResponse = 404 then returnE None
             else throwE (Error (''Version fetch failed: '' @ numToString (status versionResponse)))))
            (\<lambda>error. if isDecryptionError error then returnE None
                      else returnE (Some networkOutcome)))"

text \<open>Lines 182-198: the body of the loop over the sorted versions. \<open>Some\<close> is a
  \<^verbatim>\<open>return\<close>, \<open>None\<close> goes on to the next version (by \<^verbatim>\<open>continue\<close>, or by reaching
  the end of the body).\<close>

definition tryVersion ::
  "platform \<Rightarrow> string \<Rightarrow> string \<Rightarrow> string \<Rightarrow> (string \<times> string) list \<Rightarrow> jsval
     \<Rightarrow> outcome option io" where
  "tryVersion P passphrase base ident hs version =
     catchE
       (bindE (fetch (getReq (base @ ''/'' @ ident @ ''/v1/'' @ toStr (getProp version ''ts'')) hs))
          (\<lambda>versionResponse.
        if ok versionResponse then
          bindE (liftE (json versionResponse)) (\<lambda>versionData.
          bindE (verifyAndDecrypt P versionData passphrase) (\<lambda>decrypted.
          returnE (Some \<lparr>state = decrypted, error = None\<rparr>)))
        else returnE None))
       (\<lambda>error. if isDecryptionError error then returnE None
                 else returnE (Some networkOutcome))"

text \<open>Lines 181-202: the loop, and the \<^verbatim>\<open>return\<close> after it.\<close>

fun scanVersions ::
  "platform \<Rightarrow> string \<Rightarrow> string \<Rightarrow> string \<Rightarrow> (string \<times> string) list \<Rightarrow> jsval list
     \<Rightarrow> outcome io" where
  "scanVersions P passphrase base ident hs [] w = (Inr integrityOutcome, w)"
| "scanVersions P passphrase base ident hs (version # rest) w =
     (case tryVersion P passphrase base ident hs version w of
        (Inl e, w') \<Rightarrow> (Inl e, w')
      | (Inr (Some out), w') \<Rightarrow> (Inr out, w')
      | (Inr None, w') \<Rightarrow> scanVersions P passphrase base ident hs rest w')"

text \<open>The number a version descriptor carries (only applied to descriptors that passed the
  filter of line 178).\<close>

fun tsOf :: "jsval \<Rightarrow> int" where
  "tsOf v = (case getProp v ''ts'' of JNum n \<Rightarrow> n | _ \<Rightarrow> 0)"

definition sortedVersions :: "jsval list \<Rightarrow> jsval list" where
  "sortedVersions versions =
     sort_key (\<lambda>v. - tsOf v)
       (filter (\<lambda>v. truthy v \<and> typeof (getProp v ''ts'') = ''number'') versions)"

text \<open>Lines 163-207: the list fallback.\<close>

definition listFallback ::
  "platform \<Rightarrow> string \<Rightarrow> string \<Rightarrow> string \<Rightarrow> (string \<times> string) list \<Rightarrow> outcome io" where
  "listFallback P passphrase base ident hs =
     catchE
       (bindE (fetch (getReq (base @ ''/'' @ ident @ ''/v1?limit=20'') hs)) (\<lambda>listResponse.
        if \<not> ok listResponse then
          throwE (Error (''List fetch failed: '' @ numToString (status listResponse)))
        else
          bindE (liftE (json listResponse)) (\<lambda>versions.
          case versions of
            JArr vs \<Rightarrow>
              if vs = [] then returnE noStateOutcome
              else scanVersions P passphrase base ident hs (sortedVersions vs)
          | _ \<Rightarrow> returnE noStateOutcome)))
       (\<lambda>error. returnE networkOutcome)"

text \<open>Lines 106-213.\<close>

definition loadState :: "platform \<Rightarrow> string \<Rightarrow> outcome io" where
  "loadState P passphrase =
     catchE
       (bindE (deriveId P passphrase) (\<lambda>id.
        bindE getAppCheckToken (\<lambda>token.
        let hs = appCheckHeader token in
        bindE getBaseUrl (\<lambda>base.
        bindE (latestPointer base id hs) (\<lambda>r.
        case r of
          Inl out \<Rightarrow> returnE out
        | Inr latestTs \<Rightarrow>
            bindE (latestVersion P passphrase base id hs latestTs) (\<lambda>r'.
            case r' of
              Some out \<Rightarrow> returnE out
            | None \<Rightarrow> listFallback P passphrase base id hs))))))
       (\<lambda>error. returnE networkOutcome)"

section \<open>Auxiliary notions for the proofs\<close>

text \<open>A string all of whose characters are in the base64 alphabet.\<close>

definition alphabetic :: "string \<Rightarrow> bool" where
  "alphabetic s = (\<forall>c \<in> set s. b64val c \<noteq> None)"

text \<open>
  The value and the trace of a run of \<open>HKDF\<close>, written without the world; lemma
  \<open>HKDF_run\<close> shows that the program's \<open>HKDF\<close> returns exactly these.
\<close>

definition kdfValue :: "platform \<Rightarrow> string \<Rightarrow> string \<Rightarrow> int \<Rightarrow> string \<Rightarrow> exn + bytes" where
  "kdfValue P passphrase info lengthBytes saltB64u =
     (case base64urlDecode saltB64u of
        Inl e \<Rightarrow> Inl e
      | Inr salt \<Rightarrow>
          (case importKey P ''PBKDF2'' (textEncode P passphrase) of
             Inl e \<Rightarrow> Inl e
           | Inr keyMaterial \<Rightarrow>
               (case pbkdf2DeriveKey P salt 100000 keyMaterial of
                  Inl e \<Rightarrow> Inl e
                | Inr derivedKey \<Rightarrow>
                    hkdfDeriveBits P salt (textEncode P info) derivedKey (lengthBytes * 8))))"

definition kdfCalls :: "platform \<Rightarrow> string \<Rightarrow> string \<Rightarrow> int \<Rightarrow> string \<Rightarrow> call list" where
  "kdfCalls P passphrase info lengthBytes saltB64u =
     (case base64urlDecode saltB64u of
        Inl e \<Rightarrow> []
      | Inr salt \<Rightarrow>
          (case importKey P ''PBKDF2'' (textEncode P passphrase) of
             Inl e \<Rightarrow> [CallImportKey ''PBKDF2'' (textEncode P passphrase)]
           | Inr keyMaterial \<Rightarrow>
               (case pbkdf2DeriveKey P salt 100000 keyMaterial of
                  Inl e \<Rightarrow> [CallDeriveKey salt 100000 keyMaterial,
                            CallImportKey ''PBKDF2'' (textEncode P passphrase)]
                | Inr derivedKey \<Rightarrow>
                    [CallDeriveBits salt (textEncode P info) derivedKey (lengthBytes * 8),
                     CallDeriveKey salt 100000 keyMaterial,
                     CallImportKey ''PBKDF2'' (textEncode P passphrase)])))"

text \<open>The \<^verbatim>\<open>crypto.subtle\<close> operations invoked between two worlds, newest first.\<close>

definition callsSince :: "world \<Rightarrow> world \<Rightarrow> call list" where
  "callsSince w w' = take (length (calls w') - length (calls w)) (calls w')"

text \<open>
  What the proofs about a round trip assume of the provider: AES-GCM decryption inverts
  encryption under the same key and IV, and HMAC verification accepts the signature HMAC
  signing produced for the same key and data.
\<close>

definition cryptoLaws :: "platform \<Rightarrow> bool" where
  "cryptoLaws P =
     ((\<forall>iv k pt ct. aesGcmEncrypt P iv k pt = Inr ct \<longrightarrow> aesGcmDecrypt P iv k ct = Inr pt) \<and>
      (\<forall>k d s. hmacSign P k d = Inr s \<longrightarrow> hmacVerify P k s d = Inr True))"

text \<open>A value is JSON-serializable when \<^verbatim>\<open>JSON.parse\<close> gives it back from the decoded
  bytes of the encoded text \<^verbatim>\<open>JSON.stringify\<close> made of it.\<close>

definition jsonSerializable :: "platform \<Rightarrow> jsval \<Rightarrow> bool" where
  "jsonSerializable P v = (jsonParse P (textDecode P (textEncode P (jsonStringify P v))) = Inr v)"

section \<open>A demonstration provider and world\<close>

text \<open>
  A small provider on which the theorems with hypotheses are instantiated. Its
  operations have the shapes of the real ones (key lengths, a tag appended to the
  ciphertext, a signature that depends on key and data) but no cryptographic strength;
  its \<^verbatim>\<open>JSON\<close> covers \<^verbatim>\<open>null\<close>, the booleans and strings without escapes. Like the
  providers of browsers, it accepts an empty PBKDF2 password.
\<close>

definition demoTag :: "bytes \<Rightarrow> bytes \<Rightarrow> bytes" where
  "demoTag key d = replicate 32 (sum_list (key @ d))"

definition demoStringify :: "jsval \<Rightarrow> string" where
  "demoStringify v =
     (case v of
        JStr s \<Rightarrow> CHR 0x22 # s @ [CHR 0x22]
      | JBool b \<Rightarrow> (if b then ''true'' else ''false'')
      | _ \<Rightarrow> ''null'')"

definition demoParse :: "string \<Rightarrow> exn + jsval" where
  "demoParse s =
     (if s = ''null'' then Inr JNull
      else if s = ''true'' then Inr (JBool True)
      else if s = ''false'' then Inr (JBool False)
      else if 2 \<le> length s \<and> hd s = CHR 0x22 \<and> last s = CHR 0x22 then Inr (JStr (butlast (tl s)))
      else Inl (Error ''SyntaxError''))"

definition demoPlatform :: platform where
  "demoPlatform =
     \<lparr>importKey = (\<lambda>alg raw. Inr raw),
      pbkdf2DeriveKey = (\<lambda>salt iterations key. Inr (key @ salt)),
      hkdfDeriveBits = (\<lambda>salt info key len.
         Inr (take (nat (len div 8)) (salt @ info @ key @ replicate (nat (len div 8)) 0))),
      aesGcmEncrypt = (\<lambda>iv key pt.
         if length key < 16 then Inl (Error ''OperationError'') else Inr (pt @ take 16 key)),
      aesGcmDecrypt = (\<lambda>iv key ct.
         if 16 \<le> length ct \<and> drop (length ct - 16) ct = take 16 key
         then Inr (take (length ct - 16) ct) else Inl (Error ''OperationError'')),
      hmacSign = (\<lambda>key d. Inr (demoTag key d)),
      hmacVerify = (\<lambda>key sg d. Inr (sg = demoTag key d)),
      textEncode = map (\<lambda>c. of_nat (of_char c)),
      textDecode = map (\<lambda>b. char_of (unat b)),
      jsonStringify = demoStringify,
      jsonParse = demoParse\<rparr>"

text \<open>A server that answers the \<open>n\<close>-th request with the \<open>n\<close>-th entry of a script, and
  rejects once the script is used up.\<close>

definition scripted :: "(exn + response) list \<Rightarrow> request list \<Rightarrow> request \<Rightarrow> exn + response" where
  "scripted script history req =
     (if length history < length script then script ! length history
      else Inl (Error ''Failed to fetch''))"

definition demoWorld :: "(exn + response) list \<Rightarrow> world" where
  "demoWorld script =
     \<lparr>calls = [], entropy = (\<lambda>n. of_nat n), drawn = 0, clock = 5,
      server = scripted script, sent = [], appCheck = None, appCheckErrorLogged = False,
      baseUrl = ''https://store.example'', debounceMs = 500, debounceTimers = Map.empty,
      timers = [], nextTimer = 0, saves = []\<rparr>"

text \<open>
  A provider whose derivations ignore the salt: the demonstration provider, except that
  its PBKDF2 step returns the key material and its HKDF step expands label and key only.
\<close>

definition saltBlindPlatform :: platform where
  "saltBlindPlatform =
     demoPlatform
       \<lparr>pbkdf2DeriveKey := (\<lambda>salt iterations key. Inr key),
        hkdfDeriveBits := (\<lambda>salt info key len.
          Inr (take (nat (len div 8)) (info @ key @ replicate (nat (len div 8)) 0)))\<rparr>"

text \<open>\<open>post m Q\<close>: every value the computation \<open>m\<close> returns satisfies \<open>Q\<close>.\<close>

definition post :: "'a io \<Rightarrow> ('a \<Rightarrow> bool) \<Rightarrow> bool" where
  "post m Q = (\<forall>w x w'. m w = (Inr x, w') \<longrightarrow> Q x)"

text \<open>The result contract of \<^verbatim>\<open>loadState\<close>.\<close>

definition validOutcome :: "outcome \<Rightarrow> bool" where
  "validOutcome out =
     (error out = None \<or>
      (error out \<in> {Some ''network'', Some ''integrity''} \<and> state out = JNull))"

text \<open>Responses of the store: a status with no body to parse, and a 200 with a body.\<close>

definition statusOnly :: "int \<Rightarrow> exn + response" where
  "statusOnly st = Inr \<lparr>status = st, statusText = [], json = Inl (Error ''Unexpected end of JSON input'')\<rparr>"

definition okJson :: "jsval \<Rightarrow> exn + response" where
  "okJson v = Inr \<lparr>status = 200, statusText = ''OK'', json = Inr v\<rparr>"

section \<open>base64url: decoding inverts encoding\<close>

lemma b64val_b64char: "n < 64 \<Longrightarrow> b64val (b64char n) = Some n"
  unfolding b64val_def b64char_def Let_def by (auto simp: )


lemma unat_byte_less: "unat (b::8 word) < 256"
proof -
  have "unat b < 2 ^ LENGTH(8)" by (rule unsigned_less)
  then show ?thesis by simp
qed

lemma sextets_lt64: "s \<in> set (sextets bs) \<Longrightarrow> s < 64"
proof (induction bs arbitrary: s rule: sextets.induct)
  case (1 a b c rest)
  have "unat a < 256" "unat b < 256" "unat c < 256"
    using unat_byte_less by simp_all
  then have "unat a div 4 < 64" "(unat a mod 4) * 16 + unat b div 16 < 64"
    "(unat b mod 16) * 4 + unat c div 64 < 64" "unat c mod 64 < 64"
    by arith+
  with 1 show ?case by auto
next
  case (2 a b)
  have "unat a < 256" "unat b < 256"
    using unat_byte_less by simp_all
  then have "unat a div 4 < 64" "(unat a mod 4) * 16 + unat b div 16 < 64"
    "(unat b mod 16) * 4 < 64"
    by arith+
  with 2 show ?case by auto
next
  case (3 a)
  have "unat a < 256" using unat_byte_less by simp
  then have "unat a div 4 < 64" "(unat a mod 4) * 16 < 64" by arith+
  with 3 show ?case by auto
next
  case 4
  then show ?case by simp
qed

lemma div_digit: "y < n \<Longrightarrow> (x * n + y) div n = (x::nat)"
  by simp

lemma mod_digit: "y < n \<Longrightarrow> (x * n + y) mod n = (y::nat)"
  by simp

lemma byte_hi: "unat (b::8 word) div 16 < 16" "unat (b::8 word) div 64 < 4"
  using unat_byte_less[of b] by simp_all

lemma word_of_unat: "(of_nat (unat (w::8 word)) :: 8 word) = w"
  by simp

lemma byte1: "(of_nat (unat a div 4 * 4 + (unat a mod 4 * 16 + unat (b::8 word) div 16) div 16) :: 8 word) = a"
  by (simp only: div_digit[OF byte_hi(1)] div_mult_mod_eq word_of_unat)

lemma byte1': "(of_nat (unat a div 4 * 4 + (unat a mod 4 * 16) div 16) :: 8 word) = a"
  by (simp only: nonzero_mult_div_cancel_right div_mult_mod_eq word_of_unat)

lemma byte2: "(of_nat ((unat (a::8 word) mod 4 * 16 + unat b div 16) mod 16 * 16 + (unat b mod 16 * 4 + unat (c::8 word) div 64) div 4) :: 8 word) = b"
  by (simp only: div_digit[OF byte_hi(2)] mod_digit[OF byte_hi(1)] div_mult_mod_eq word_of_unat)

lemma byte2': "(of_nat ((unat (a::8 word) mod 4 * 16 + unat b div 16) mod 16 * 16 + (unat b mod 16 * 4) div 4) :: 8 word) = b"
  by (simp only: mod_digit[OF byte_hi(1)] div_mult_mod_eq word_of_unat) simp

lemma byte3: "(of_nat ((unat (b::8 word) mod 16 * 4 + unat c div 64) mod 4 * 64 + unat c mod 64) :: 8 word) = c"
  by (simp only: mod_digit[OF byte_hi(2)] div_mult_mod_eq word_of_unat)

lemma octets_sextets: "octets (sextets bs) = bs"
  by (induction bs rule: sextets.induct)
     (simp_all only: sextets.simps octets.simps append_Cons append_Nil byte1 byte1' byte2 byte2' byte3)

lemma length_sextets_mod: "length (sextets bs) mod 4 \<in> {0, 2, 3}"
  by (induction bs rule: sextets.induct) simp_all


lemma b64val_None: "b64val (CHR ''='') = None" "b64val (CHR ''-'') = None" "b64val (CHR ''_'') = None"
  by (simp_all add: b64val_def)

lemma b64val_whitespace: "asciiWhitespace c \<Longrightarrow> b64val c = None"
  by (auto simp: b64val_def asciiWhitespace_def)

lemma b64val_plus_slash: "b64val (CHR ''+'') = Some 62" "b64val (CHR ''/'') = Some 63"
  by (simp_all add: b64val_def)

lemma replaceAll_single: "replaceAll c [r] s = map (\<lambda>x. if x = c then r else x) s"
  by (induction s) (simp_all add: replaceAll_def)

lemma replaceAll_remove: "replaceAll c [] s = filter (\<lambda>x. x \<noteq> c) s"
  by (induction s) (simp_all add: replaceAll_def)

lemma replaceAll_remove_pad:
  "\<forall>c \<in> set xs. c \<noteq> p \<Longrightarrow> replaceAll p [] (xs @ replicate k p) = xs"
  by (simp add: replaceAll_remove filter_id_conv)

lemma alphabetic_core: "alphabetic (map b64char (sextets bs))"
  using sextets_lt64 b64val_b64char by (fastforce simp: alphabetic_def)

lemma alphabetic_not_in:
  assumes "alphabetic s"
  shows "CHR ''='' \<notin> set s" "CHR ''-'' \<notin> set s" "CHR ''_'' \<notin> set s"
    "filter (\<lambda>c. \<not> asciiWhitespace c) s = s"
  using assms b64val_None b64val_whitespace by (auto simp: alphabetic_def filter_id_conv)

lemma those_b64val_core: "those (map b64val (map b64char (sextets bs))) = Some (sextets bs)"
proof -
  have "\<forall>s \<in> set ss. s < 64 \<Longrightarrow> those (map b64val (map b64char ss)) = Some ss" for ss
    by (induction ss) (simp_all add: b64val_b64char)
  then show ?thesis using sextets_lt64 by blast
qed

lemma stripPadding_core:
  assumes "CHR ''='' \<notin> set s" and "length s mod 4 \<in> {0, 2, 3}"
  shows "stripPadding (s @ replicate ((4 - length s mod 4) mod 4) (CHR ''='')) = s"
proof -
  consider "length s mod 4 = 0" | "length s mod 4 = 2" | "length s mod 4 = 3"
    using assms(2) by auto
  then show ?thesis
  proof cases
    case 1
    show ?thesis
    proof (cases "s = []")
      case True
      then show ?thesis by (simp add: stripPadding_def)
    next
      case False
      then have "last s \<noteq> CHR ''=''" using assms(1) last_in_set by metis
      with 1 False show ?thesis by (simp add: stripPadding_def)
    qed
  next
    case 2
    then have len: "Suc (Suc (length s)) mod 4 = 0" by presburger
    from 2 have "s @ replicate ((4 - length s mod 4) mod 4) (CHR ''='') = s @ [CHR ''='', CHR ''='']"
      by (simp add: numeral_2_eq_2)
    with len show ?thesis by (simp add: stripPadding_def butlast_append)
  next
    case 3
    then have len: "Suc (length s) mod 4 = 0" by presburger
    from 3 have ne: "s \<noteq> []" by auto
    then have "last s \<noteq> CHR ''=''" using assms(1) last_in_set by metis
    with 3 len ne show ?thesis by (simp add: stripPadding_def butlast_append)
  qed
qed

lemma atob_padded_core:
  "atob (map b64char (sextets bs)
         @ replicate ((4 - length (map b64char (sextets bs)) mod 4) mod 4) (CHR ''='')) = Inr bs"
proof -
  let ?s = "map b64char (sextets bs)"
  let ?k = "(4 - length ?s mod 4) mod 4"
  have a: "alphabetic ?s" by (rule alphabetic_core)
  have m: "length ?s mod 4 \<in> {0, 2, 3}" using length_sextets_mod[of bs] by simp
  have ws: "filter (\<lambda>c. \<not> asciiWhitespace c) (?s @ replicate ?k (CHR ''=''))
            = ?s @ replicate ?k (CHR ''='')"
    using alphabetic_not_in(4)[OF a] by (simp add: asciiWhitespace_def)
  have sp: "stripPadding (?s @ replicate ?k (CHR ''='')) = ?s"
    using stripPadding_core[OF alphabetic_not_in(1)[OF a] m] .
  have n1: "length ?s mod 4 \<noteq> 1" using m by auto
  show ?thesis
    unfolding atob_def Let_def ws sp using n1
    by (simp only: those_b64val_core octets_sextets if_False option.case)
qed

lemma base64urlEncode_core:
  "base64urlEncode bs =
     map (\<lambda>x. if x = CHR ''/'' then CHR ''_'' else x)
       (map (\<lambda>x. if x = CHR ''+'' then CHR ''-'' else x) (map b64char (sextets bs)))"
proof -
  let ?s = "map b64char (sextets bs)"
  let ?f = "\<lambda>x. if x = CHR ''+'' then CHR ''-'' else x"
  let ?g = "\<lambda>x. if x = CHR ''/'' then CHR ''_'' else x"
  let ?p = "replicate ((3 - length bs mod 3) mod 3) (CHR ''='')"
  have a: "\<forall>c \<in> set ?s. c \<noteq> CHR ''=''"
    using alphabetic_not_in(1)[OF alphabetic_core] by blast
  have 1: "replaceAll (CHR ''+'') ''-'' (btoa bs) = map ?f ?s @ ?p"
    by (simp add: btoa_def replaceAll_single)
  have 2: "replaceAll (CHR ''/'') ''_'' (map ?f ?s @ ?p) = map ?g (map ?f ?s) @ ?p"
    by (simp add: replaceAll_single)
  have b: "\<forall>c \<in> set (map ?g (map ?f ?s)). c \<noteq> CHR ''=''"
    using a by auto
  have 3: "replaceAll (CHR ''='') [] (map ?g (map ?f ?s) @ ?p) = map ?g (map ?f ?s)"
    using b by (rule replaceAll_remove_pad)
  show ?thesis
    unfolding base64urlEncode_def Let_def 1 2 3 ..
qed

lemma url_roundtrip:
  assumes "alphabetic s"
  shows "replaceAll (CHR ''_'') ''/'' (replaceAll (CHR ''-'') ''+''
           (map (\<lambda>x. if x = CHR ''/'' then CHR ''_'' else x)
             (map (\<lambda>x. if x = CHR ''+'' then CHR ''-'' else x) s))) = s"
proof -
  have "\<forall>c \<in> set s. c \<noteq> CHR ''-'' \<and> c \<noteq> CHR ''_''"
    using alphabetic_not_in(2,3)[OF assms] by auto
  then show ?thesis
    by (induction s) (simp_all add: replaceAll_single)
qed

lemma base64url_roundtrip: "base64urlDecode (base64urlEncode bs) = Inr bs"
  unfolding base64urlDecode_def Let_def base64urlEncode_core url_roundtrip[OF alphabetic_core]
  by (rule atob_padded_core)

section \<open>Sequencing and exceptions\<close>

lemma bindE_returnE [simp]: "bindE (returnE x) f w = f x w"
  by (simp add: bindE_def returnE_def)

lemma bindE_throwE [simp]: "bindE (throwE e) f w = (Inl e, w)"
  by (simp add: bindE_def throwE_def)

lemma bindE_liftE [simp]:
  "bindE (liftE r) f w = (case r of Inl e \<Rightarrow> (Inl e, w) | Inr x \<Rightarrow> f x w)"
  by (simp add: bindE_def liftE_def split: sum.splits)

lemma bindE_Inr: "m w = (Inr x, w') \<Longrightarrow> bindE m f w = f x w'"
  by (simp add: bindE_def)

lemma bindE_Inl: "m w = (Inl e, w') \<Longrightarrow> bindE m f w = (Inl e, w')"
  by (simp add: bindE_def)

lemma catchE_Inr: "m w = (Inr x, w') \<Longrightarrow> catchE m h w = (Inr x, w')"
  by (simp add: catchE_def)

lemma catchE_Inl: "m w = (Inl e, w') \<Longrightarrow> catchE m h w = h e w'"
  by (simp add: catchE_def)

lemma HKDF_run:
  "HKDF P passphrase info len s w =
     (kdfValue P passphrase info len s, w\<lparr>calls := kdfCalls P passphrase info len s @ calls w\<rparr>)"
  by (simp add: HKDF_def kdfValue_def kdfCalls_def bindE_def liftE_def returnE_def
        subtleImportKey_def subtleDeriveKey_def subtleDeriveBits_def Let_def
      split: sum.splits)

section \<open>The envelope codec\<close>

lemma encryptJson_run:
  "encryptJson P obj passphrase w = (Inr e, w') \<Longrightarrow>
   \<exists>salt iv encKey macKey cryptoKey hmacKey ct macBytes.
     salt = map (entropy w) [drawn w ..< drawn w + 16] \<and>
     iv = map (entropy w) [drawn w + 16 ..< drawn w + 28] \<and>
     kdfValue P passphrase ''enc'' 32 (base64urlEncode salt) = Inr encKey \<and>
     kdfValue P passphrase ''mac'' 32 (base64urlEncode salt) = Inr macKey \<and>
     importKey P ''AES-GCM'' encKey = Inr cryptoKey \<and>
     importKey P ''HMAC'' macKey = Inr hmacKey \<and>
     aesGcmEncrypt P iv cryptoKey (textEncode P (jsonStringify P obj)) = Inr ct \<and>
     hmacSign P hmacKey (salt @ iv @ ct) = Inr macBytes \<and>
     e = JObj [(''v'', JNum 1), (''ts'', JNum (clock w)), (''salt'', JStr (base64urlEncode salt)),
               (''iv'', JStr (base64urlEncode iv)), (''ct'', JStr (base64urlEncode ct)),
               (''mac'', JStr (base64urlEncode macBytes))]"
  by (auto simp: encryptJson_def bindE_def getRandomValues_def HKDF_run Let_def
        subtleImportKey_def subtleEncrypt_def subtleSign_def dateNow_def returnE_def
        concatUint8Arrays_def add.commute
      split: sum.splits)

lemma verifyAndDecrypt_envelope:
  assumes "kdfValue P passphrase ''enc'' 32 (base64urlEncode salt) = Inr encKey"
    and "kdfValue P passphrase ''mac'' 32 (base64urlEncode salt) = Inr macKey"
    and "importKey P ''AES-GCM'' encKey = Inr cryptoKey"
    and "importKey P ''HMAC'' macKey = Inr hmacKey"
    and "hmacVerify P hmacKey macBytes (salt @ iv @ ct) = Inr True"
    and "aesGcmDecrypt P iv cryptoKey ct = Inr pt"
    and "jsonParse P (textDecode P pt) = Inr v"
  shows "fst (verifyAndDecrypt P
           (JObj [(''v'', JNum 1), (''ts'', JNum t), (''salt'', JStr (base64urlEncode salt)),
                  (''iv'', JStr (base64urlEncode iv)), (''ct'', JStr (base64urlEncode ct)),
                  (''mac'', JStr (base64urlEncode macBytes))]) passphrase w) = Inr v"
  using assms
  by (simp add: verifyAndDecrypt_def invalidStructure_def catchE_def bindE_def liftE_def
        base64url_roundtrip HKDF_run subtleImportKey_def subtleVerify_def subtleDecrypt_def
        concatUint8Arrays_def Let_def)

text \<open>
  C1. For every JSON-serializable value \<open>v\<close> and every passphrase \<open>p\<close>: when
  \<open>encryptJson\<close> produces an envelope \<open>e\<close> for \<open>v\<close> under \<open>p\<close>, then
  \<open>verifyAndDecrypt\<close> of \<open>e\<close> under \<open>p\<close> returns \<open>v\<close>, in whatever world it runs
  (the provider's AES-GCM and HMAC being inverse pairs).
\<close>

theorem decrypt_encrypt_roundtrip:
  assumes "cryptoLaws P" and "jsonSerializable P v"
    and "encryptJson P v p w = (Inr e, w')"
  shows "fst (verifyAndDecrypt P e p w'') = Inr v"
proof -
  from encryptJson_run[OF assms(3)] obtain salt iv encKey macKey cryptoKey hmacKey ct macBytes
    where enc: "kdfValue P p ''enc'' 32 (base64urlEncode salt) = Inr encKey"
      and mac: "kdfValue P p ''mac'' 32 (base64urlEncode salt) = Inr macKey"
      and ck: "importKey P ''AES-GCM'' encKey = Inr cryptoKey"
      and hk: "importKey P ''HMAC'' macKey = Inr hmacKey"
      and ct: "aesGcmEncrypt P iv cryptoKey (textEncode P (jsonStringify P v)) = Inr ct"
      and sg: "hmacSign P hmacKey (salt @ iv @ ct) = Inr macBytes"
      and e: "e = JObj [(''v'', JNum 1), (''ts'', JNum (clock w)),
               (''salt'', JStr (base64urlEncode salt)),
               (''iv'', JStr (base64urlEncode iv)), (''ct'', JStr (base64urlEncode ct)),
               (''mac'', JStr (base64urlEncode macBytes))]"
    by blast
  from assms(1) sg have vf: "hmacVerify P hmacKey macBytes (salt @ iv @ ct) = Inr True"
    by (simp add: cryptoLaws_def)
  from assms(1) ct have dc: "aesGcmDecrypt P iv cryptoKey ct = Inr (textEncode P (jsonStringify P v))"
    by (simp add: cryptoLaws_def)
  from assms(2) have js: "jsonParse P (textDecode P (textEncode P (jsonStringify P v))) = Inr v"
    by (simp add: jsonSerializable_def)
  show ?thesis
    unfolding e by (rule verifyAndDecrypt_envelope[OF enc mac ck hk vf dc js])
qed

text \<open>
  C10. The \<open>ts\<close> field is covered neither by the MAC nor by the AEAD: for every envelope
  \<open>e\<close> that \<open>encryptJson\<close> produces for \<open>v\<close> under \<open>p\<close> and every number \<open>t\<close>,
  \<open>verifyAndDecrypt\<close> of \<open>e\<close> with its \<open>ts\<close> replaced by \<open>t\<close> still returns \<open>v\<close>.
\<close>

theorem ts_not_authenticated:
  assumes "cryptoLaws P" and "jsonSerializable P v"
    and "encryptJson P v p w = (Inr e, w')"
  shows "fst (verifyAndDecrypt P (setProp e ''ts'' (JNum t)) p w'') = Inr v"
proof -
  from encryptJson_run[OF assms(3)] obtain salt iv encKey macKey cryptoKey hmacKey ct macBytes
    where enc: "kdfValue P p ''enc'' 32 (base64urlEncode salt) = Inr encKey"
      and mac: "kdfValue P p ''mac'' 32 (base64urlEncode salt) = Inr macKey"
      and ck: "importKey P ''AES-GCM'' encKey = Inr cryptoKey"
      and hk: "importKey P ''HMAC'' macKey = Inr hmacKey"
      and ct: "aesGcmEncrypt P iv cryptoKey (textEncode P (jsonStringify P v)) = Inr ct"
      and sg: "hmacSign P hmacKey (salt @ iv @ ct) = Inr macBytes"
      and e: "e = JObj [(''v'', JNum 1), (''ts'', JNum (clock w)),
               (''salt'', JStr (base64urlEncode salt)),
               (''iv'', JStr (base64urlEncode iv)), (''ct'', JStr (base64urlEncode ct)),
               (''mac'', JStr (base64urlEncode macBytes))]"
    by blast
  from assms(1) sg have vf: "hmacVerify P hmacKey macBytes (salt @ iv @ ct) = Inr True"
    by (simp add: cryptoLaws_def)
  from assms(1) ct have dc: "aesGcmDecrypt P iv cryptoKey ct = Inr (textEncode P (jsonStringify P v))"
    by (simp add: cryptoLaws_def)
  from assms(2) have js: "jsonParse P (textDecode P (textEncode P (jsonStringify P v))) = Inr v"
    by (simp add: jsonSerializable_def)
  have "setProp e ''ts'' (JNum t) =
          JObj [(''v'', JNum 1), (''ts'', JNum t), (''salt'', JStr (base64urlEncode salt)),
                (''iv'', JStr (base64urlEncode iv)), (''ct'', JStr (base64urlEncode ct)),
                (''mac'', JStr (base64urlEncode macBytes))]"
    unfolding e by simp
  then show ?thesis
    by (simp only: verifyAndDecrypt_envelope[OF enc mac ck hk vf dc js])
qed

text \<open>
  C9. A payload whose \<open>v\<close> field is not the number 1 is rejected by the structural
  check, whatever its other fields are: \<open>verifyAndDecrypt\<close> throws (the rejection that
  the specification calls FormatError is the \<open>Error\<close> with the message below), and no
  cryptographic operation is invoked.
\<close>

theorem wrong_version_rejected:
  assumes "getProp payload ''v'' \<noteq> JNum 1"
  shows "verifyAndDecrypt P payload passphrase w =
           (Inl (Error ''Decryption failed: Invalid payload structure''), w)"
  using assms
  by (simp add: verifyAndDecrypt_def invalidStructure_def catchE_def throwE_def)

section \<open>The demonstration provider\<close>

lemma demo_simps [simp]:
  "importKey demoPlatform alg raw = Inr raw"
  "pbkdf2DeriveKey demoPlatform salt n key = Inr (key @ salt)"
  "hkdfDeriveBits demoPlatform salt info key len =
     Inr (take (nat (len div 8)) (salt @ info @ key @ replicate (nat (len div 8)) 0))"
  "aesGcmEncrypt demoPlatform iv key pt =
     (if length key < 16 then Inl (Error ''OperationError'') else Inr (pt @ take 16 key))"
  "aesGcmDecrypt demoPlatform iv key ct =
     (if 16 \<le> length ct \<and> drop (length ct - 16) ct = take 16 key
      then Inr (take (length ct - 16) ct) else Inl (Error ''OperationError''))"
  "hmacSign demoPlatform key d = Inr (demoTag key d)"
  "hmacVerify demoPlatform key sg d = Inr (sg = demoTag key d)"
  "textEncode demoPlatform s = map (\<lambda>c. of_nat (of_char c)) s"
  "textDecode demoPlatform bs = map (\<lambda>b. char_of (unat b)) bs"
  "jsonStringify demoPlatform = demoStringify"
  "jsonParse demoPlatform = demoParse"
  by (simp_all add: demoPlatform_def)

lemma demo_cryptoLaws: "cryptoLaws demoPlatform"
  by (auto simp: cryptoLaws_def split: if_splits)

lemma demo_text_roundtrip: "map (\<lambda>b. char_of (unat (b::8 word))) (map (\<lambda>c. of_nat (of_char c)) s) = s"
proof -
  have "char_of (unat (of_nat (of_char c) :: 8 word)) = c" for c :: char
  proof -
    have "(of_char c :: nat) < 256" by simp
    then have "unat (of_nat (of_char c) :: 8 word) = of_char c"
      by (simp add: unat_of_nat)
    then show ?thesis by simp
  qed
  then show ?thesis by (induction s) simp_all
qed

lemma demo_serializable: "jsonSerializable demoPlatform (JStr s)"
proof -
  have "demoParse (CHR 0x22 # s @ [CHR 0x22]) = Inr (JStr s)"
    by (simp add: demoParse_def butlast_append)
  then show ?thesis
    by (simp only: jsonSerializable_def demo_simps demo_text_roundtrip demoStringify_def
          jsval.case)
qed

lemma demo_kdfValue:
  "kdfValue demoPlatform p info len (base64urlEncode salt) =
     Inr (take (nat (len * 8 div 8))
            (salt @ map (\<lambda>c. of_nat (of_char c)) info @ (map (\<lambda>c. of_nat (of_char c)) p @ salt)
             @ replicate (nat (len * 8 div 8)) 0))"
  by (simp add: kdfValue_def base64url_roundtrip)

lemma demo_encryptJson_succeeds:
  "\<exists>e w'. encryptJson demoPlatform v p w = (Inr e, w')"
  by (simp add: encryptJson_def bindE_def getRandomValues_def HKDF_run demo_kdfValue Let_def
        subtleImportKey_def subtleEncrypt_def subtleSign_def dateNow_def returnE_def)

text \<open>Instance of C1: the demonstration provider, the value \<^verbatim>\<open>"hi"\<close>.\<close>

theorem decrypt_encrypt_roundtrip_witness:
  "\<exists>e w'. encryptJson demoPlatform (JStr ''hi'') ''pw'' (demoWorld []) = (Inr e, w') \<and>
          fst (verifyAndDecrypt demoPlatform e ''pw'' (demoWorld [])) = Inr (JStr ''hi'')"
proof -
  obtain e w' where run: "encryptJson demoPlatform (JStr ''hi'') ''pw'' (demoWorld []) = (Inr e, w')"
    using demo_encryptJson_succeeds by blast
  from decrypt_encrypt_roundtrip[OF demo_cryptoLaws demo_serializable run] run
  show ?thesis by blast
qed

text \<open>Instance of C10: the same envelope with its \<open>ts\<close> set to 0.\<close>

theorem ts_not_authenticated_witness:
  "\<exists>e w'. encryptJson demoPlatform (JStr ''hi'') ''pw'' (demoWorld []) = (Inr e, w') \<and>
          fst (verifyAndDecrypt demoPlatform (setProp e ''ts'' (JNum 0)) ''pw'' (demoWorld []))
            = Inr (JStr ''hi'')"
proof -
  obtain e w' where run: "encryptJson demoPlatform (JStr ''hi'') ''pw'' (demoWorld []) = (Inr e, w')"
    using demo_encryptJson_succeeds by blast
  from ts_not_authenticated[OF demo_cryptoLaws demo_serializable run] run
  show ?thesis by blast
qed

text \<open>Instance of C9: an envelope that is well-formed except for \<open>v = 2\<close>.\<close>

theorem wrong_version_rejected_witness:
  "getProp (JObj [(''v'', JNum 2), (''ts'', JNum 5), (''salt'', JStr ''AAAA''),
                  (''iv'', JStr ''AAAA''), (''ct'', JStr ''AAAA''), (''mac'', JStr ''AAAA'')]) ''v''
     \<noteq> JNum 1 \<and>
   verifyAndDecrypt demoPlatform
     (JObj [(''v'', JNum 2), (''ts'', JNum 5), (''salt'', JStr ''AAAA''),
            (''iv'', JStr ''AAAA''), (''ct'', JStr ''AAAA''), (''mac'', JStr ''AAAA'')])
     ''pw'' (demoWorld [])
     = (Inl (Error ''Decryption failed: Invalid payload structure''), demoWorld [])"
proof -
  have h: "getProp (JObj [(''v'', JNum 2), (''ts'', JNum 5), (''salt'', JStr ''AAAA''),
                  (''iv'', JStr ''AAAA''), (''ct'', JStr ''AAAA''), (''mac'', JStr ''AAAA'')]) ''v''
     \<noteq> JNum 1" by simp
  from h wrong_version_rejected[OF h] show ?thesis by blast
qed

section \<open>Key derivation\<close>

lemma base64urlEncode_inj: "base64urlEncode a = base64urlEncode b \<Longrightarrow> a = b"
proof -
  assume "base64urlEncode a = base64urlEncode b"
  then have "base64urlDecode (base64urlEncode a) = base64urlDecode (base64urlEncode b)" by simp
  then show "a = b" by (simp add: base64url_roundtrip)
qed

lemma deriveId_run:
  "deriveId P passphrase w =
     (case kdfValue P passphrase ''id'' 16
             (base64urlEncode (map (entropy w) [drawn w ..< drawn w + 16])) of
        Inl e \<Rightarrow> Inl e
      | Inr idBytes \<Rightarrow> Inr (base64urlEncode idBytes),
      w\<lparr>drawn := drawn w + 16,
        calls := kdfCalls P passphrase ''id'' 16
                   (base64urlEncode (map (entropy w) [drawn w ..< drawn w + 16])) @ calls w\<rparr>)"
  by (simp add: deriveId_def bindE_def getRandomValues_def HKDF_run Let_def returnE_def
      split: sum.splits)

text \<open>
  C7, as the code has it. \<open>HKDF\<close> has no check of its own on the passphrase or on the
  length: it fails only when the salt does not decode or when the provider rejects the
  key import, the PBKDF2 step or the HKDF step, and then with that very rejection. Given
  identical inputs it is pure and deterministic: its result is the same in every world,
  and all it leaves behind is the record of the provider operations it invoked.
\<close>

theorem HKDF_pure_and_unguarded:
  "fst (HKDF P passphrase info lengthBytes saltB64u w)
     = fst (HKDF P passphrase info lengthBytes saltB64u w')
   \<and> (\<exists>cs. snd (HKDF P passphrase info lengthBytes saltB64u w) = w\<lparr>calls := cs @ calls w\<rparr>)
   \<and> (\<forall>e. fst (HKDF P passphrase info lengthBytes saltB64u w) = Inl e \<longrightarrow>
          base64urlDecode saltB64u = Inl e
        \<or> importKey P ''PBKDF2'' (textEncode P passphrase) = Inl e
        \<or> (\<exists>salt keyMaterial. pbkdf2DeriveKey P salt 100000 keyMaterial = Inl e)
        \<or> (\<exists>salt derivedKey.
              hkdfDeriveBits P salt (textEncode P info) derivedKey (lengthBytes * 8) = Inl e))"
proof -
  have "\<forall>e. kdfValue P passphrase info lengthBytes saltB64u = Inl e \<longrightarrow>
          base64urlDecode saltB64u = Inl e
        \<or> importKey P ''PBKDF2'' (textEncode P passphrase) = Inl e
        \<or> (\<exists>salt keyMaterial. pbkdf2DeriveKey P salt 100000 keyMaterial = Inl e)
        \<or> (\<exists>salt derivedKey.
              hkdfDeriveBits P salt (textEncode P info) derivedKey (lengthBytes * 8) = Inl e)"
    by (auto simp: kdfValue_def split: sum.splits)
  then show ?thesis
    unfolding HKDF_run by (simp only: fst_conv snd_conv) blast
qed

lemma decode_AAAA: "base64urlDecode ''AAAA'' = Inr [0, 0, 0]"
  by code_simp

lemma decode_A: "base64urlDecode ''A'' = Inl (Error ''InvalidCharacterError'')"
  by code_simp

lemma replicate_numeral_Cons: "replicate (numeral k) x = x # replicate (pred_numeral k) x"
  by (simp add: numeral_eq_Suc)

text \<open>
  C7 as stated fails: with the empty passphrase, on a provider that (like those of
  browsers) imports an empty PBKDF2 password, \<open>HKDF\<close> returns bytes.
\<close>

theorem HKDF_empty_passphrase_counterexample:
  "fst (HKDF demoPlatform [] ''id'' 16 ''AAAA'' (demoWorld []))
     = Inr [0, 0, 0, 105, 100, 0, 0, 0, 0, 0, 0, 0, 0, 0, 0, 0]"
  by (simp add: HKDF_run kdfValue_def decode_AAAA replicate_numeral_Cons)

text \<open>Instance of the amended C7: a salt that does not decode.\<close>

theorem HKDF_pure_and_unguarded_witness:
  "fst (HKDF demoPlatform ''pw'' ''id'' 16 ''A'' (demoWorld [])) = Inl (Error ''InvalidCharacterError'')
   \<and> base64urlDecode ''A'' = Inl (Error ''InvalidCharacterError'')"
proof -
  have h: "fst (HKDF demoPlatform ''pw'' ''id'' 16 ''A'' (demoWorld []))
             = Inl (Error ''InvalidCharacterError'')"
    by (simp add: HKDF_run kdfValue_def decode_A)
  have "base64urlDecode ''A'' = Inl (Error ''InvalidCharacterError'')
        \<or> importKey demoPlatform ''PBKDF2'' (textEncode demoPlatform ''pw'')
            = Inl (Error ''InvalidCharacterError'')
        \<or> (\<exists>salt keyMaterial. pbkdf2DeriveKey demoPlatform salt 100000 keyMaterial
            = Inl (Error ''InvalidCharacterError''))
        \<or> (\<exists>salt derivedKey.
              hkdfDeriveBits demoPlatform salt (textEncode demoPlatform ''id'') derivedKey (16 * 8)
            = Inl (Error ''InvalidCharacterError''))"
    using HKDF_pure_and_unguarded[of demoPlatform "''pw''" "''id''" 16 "''A''" "demoWorld []"
            "demoWorld []"] h
    by blast
  then have "base64urlDecode ''A'' = Inl (Error ''InvalidCharacterError'')" by simp
  with h show ?thesis by blast
qed

section \<open>The identifier\<close>

lemma demo_kdf_id:
  "length s = 16 \<Longrightarrow> kdfValue demoPlatform p ''id'' 16 (base64urlEncode s) = Inr s"
  by (simp add: demo_kdfValue)

lemma demo_deriveId:
  "deriveId demoPlatform p w =
     (Inr (base64urlEncode (map (entropy w) [drawn w ..< drawn w + 16])),
      w\<lparr>drawn := drawn w + 16,
        calls := kdfCalls demoPlatform p ''id'' 16
                   (base64urlEncode (map (entropy w) [drawn w ..< drawn w + 16])) @ calls w\<rparr>)"
  by (simp add: deriveId_run demo_kdf_id)


lemma saltBlind_simps [simp]:
  "importKey saltBlindPlatform alg raw = Inr raw"
  "pbkdf2DeriveKey saltBlindPlatform salt n key = Inr key"
  "hkdfDeriveBits saltBlindPlatform salt info key len =
     Inr (take (nat (len div 8)) (info @ key @ replicate (nat (len div 8)) 0))"
  "textEncode saltBlindPlatform s = map (\<lambda>c. of_nat (of_char c)) s"
  by (simp_all add: saltBlindPlatform_def demoPlatform_def)




section \<open>The MAC is checked before decryption\<close>

lemma callsSince_same [simp]: "callsSince w w = []"
  by (simp add: callsSince_def)

lemma callsSince_base [simp]: "callsSince w (w\<lparr>calls := calls w\<rparr>) = []"
  by (simp add: callsSince_def)

lemma callsSince_Cons [simp]:
  "length (calls w) \<le> length cs \<Longrightarrow>
   callsSince w (w\<lparr>calls := a # cs\<rparr>) = a # callsSince w (w\<lparr>calls := cs\<rparr>)"
  by (simp add: callsSince_def Suc_diff_le)

lemma callsSince_app [simp]:
  "length (calls w) \<le> length cs \<Longrightarrow>
   callsSince w (w\<lparr>calls := new @ cs\<rparr>) = new @ callsSince w (w\<lparr>calls := cs\<rparr>)"
  by (simp add: callsSince_def)

lemma kdfCalls_no_verify [simp]: "CallVerify k sg d \<notin> set (kdfCalls P p info len s)"
  by (auto simp: kdfCalls_def split: sum.splits)

lemma kdfCalls_no_decrypt [simp]: "CallDecrypt iv k c \<notin> set (kdfCalls P p info len s)"
  by (auto simp: kdfCalls_def split: sum.splits)

text \<open>
  In every run of \<open>verifyAndDecrypt\<close>, whatever the payload: a verification that is
  invoked is over the decoded \<open>salt\<close>, \<open>iv\<close>, \<open>ct\<close> against the decoded \<open>mac\<close>, and
  a decryption that is invoked is the operation right after a verification that
  succeeded.
\<close>

lemma decrypt_follows_verify:
  assumes "verifyAndDecrypt P payload passphrase w = (r, w')"
  shows "(\<forall>k sg d. CallVerify k sg d \<in> set (callsSince w w') \<longrightarrow>
            (\<exists>salt iv ct.
               base64urlDecode (asString (getProp payload ''salt'')) = Inr salt \<and>
               base64urlDecode (asString (getProp payload ''iv'')) = Inr iv \<and>
               base64urlDecode (asString (getProp payload ''ct'')) = Inr ct \<and>
               base64urlDecode (asString (getProp payload ''mac'')) = Inr sg \<and>
               d = salt @ iv @ ct) \<and>
            (hmacVerify P k sg d = Inr False \<longrightarrow>
               r = Inl (Error ''Decryption failed: HMAC verification failed'') \<and>
               (\<forall>iv' k' c. CallDecrypt iv' k' c \<notin> set (callsSince w w'))))
       \<and> (\<forall>iv' k' c. CallDecrypt iv' k' c \<in> set (callsSince w w') \<longrightarrow>
            (\<exists>k sg d rest. callsSince w w' = CallDecrypt iv' k' c # CallVerify k sg d # rest \<and>
               hmacVerify P k sg d = Inr True))"
  using assms
  by (auto simp: verifyAndDecrypt_def catchE_def bindE_def liftE_def throwE_def HKDF_run
        subtleImportKey_def subtleVerify_def subtleDecrypt_def concatUint8Arrays_def Let_def
      split: sum.splits if_splits)

text \<open>
  C6. Take any payload that passes the structural check and whose four byte fields
  decode, a passphrase, and a provider on which the keys can be derived and imported.
  Then \<open>verifyAndDecrypt\<close> invokes the provider's HMAC verification with the key derived
  under the label \<^verbatim>\<open>"mac"\<close> from the payload's salt, over \<open>salt \<parallel> iv \<parallel> ct\<close>, against
  the stored \<open>mac\<close>. AES-GCM decryption is invoked only if that verification returned
  true, and then after it. When the verification reports a mismatch, the run fails with
  the HMAC error (the specification's IntegrityError), and the operations invoked are
  the key derivations, the two imports and the verification: decryption is not among
  them.
\<close>

theorem mac_mismatch_fails_closed:
  assumes "\<not> invalidStructure payload"
    and "base64urlDecode (asString (getProp payload ''salt'')) = Inr salt"
    and "base64urlDecode (asString (getProp payload ''iv'')) = Inr iv"
    and "base64urlDecode (asString (getProp payload ''ct'')) = Inr ct"
    and "base64urlDecode (asString (getProp payload ''mac'')) = Inr mac"
    and "importKey P ''PBKDF2'' (textEncode P passphrase) = Inr keyMaterial"
    and "pbkdf2DeriveKey P salt 100000 keyMaterial = Inr derivedKey"
    and "hkdfDeriveBits P salt (textEncode P ''enc'') derivedKey 256 = Inr encKey"
    and "hkdfDeriveBits P salt (textEncode P ''mac'') derivedKey 256 = Inr macKey"
    and "importKey P ''AES-GCM'' encKey = Inr cryptoKey"
    and "importKey P ''HMAC'' macKey = Inr hmacKey"
  shows "callsSince w (snd (verifyAndDecrypt P payload passphrase w)) =
           (if hmacVerify P hmacKey mac (salt @ iv @ ct) = Inr True
            then [CallDecrypt iv cryptoKey ct] else [])
           @ [CallVerify hmacKey mac (salt @ iv @ ct),
              CallImportKey ''HMAC'' macKey,
              CallImportKey ''AES-GCM'' encKey,
              CallDeriveBits salt (textEncode P ''mac'') derivedKey 256,
              CallDeriveKey salt 100000 keyMaterial,
              CallImportKey ''PBKDF2'' (textEncode P passphrase),
              CallDeriveBits salt (textEncode P ''enc'') derivedKey 256,
              CallDeriveKey salt 100000 keyMaterial,
              CallImportKey ''PBKDF2'' (textEncode P passphrase)]
       \<and> fst (verifyAndDecrypt P payload passphrase w) =
           (case hmacVerify P hmacKey mac (salt @ iv @ ct) of
              Inl e \<Rightarrow> Inl (Error (''Decryption failed: '' @ message e))
            | Inr macValid \<Rightarrow>
                if \<not> macValid then Inl (Error ''Decryption failed: HMAC verification failed'')
                else (case aesGcmDecrypt P iv cryptoKey ct of
                        Inl e \<Rightarrow> Inl (Error (''Decryption failed: '' @ message e))
                      | Inr plaintext \<Rightarrow>
                          (case jsonParse P (textDecode P plaintext) of
                             Inl e \<Rightarrow> Inl (Error (''Decryption failed: '' @ message e))
                           | Inr v \<Rightarrow> Inr v)))"
proof -
  have enc: "kdfValue P passphrase ''enc'' 32 (asString (getProp payload ''salt'')) = Inr encKey"
    using assms(2,6,7,8) by (simp add: kdfValue_def)
  have mac: "kdfValue P passphrase ''mac'' 32 (asString (getProp payload ''salt'')) = Inr macKey"
    using assms(2,6,7,9) by (simp add: kdfValue_def)
  have encC: "kdfCalls P passphrase ''enc'' 32 (asString (getProp payload ''salt'')) =
      [CallDeriveBits salt (textEncode P ''enc'') derivedKey 256,
       CallDeriveKey salt 100000 keyMaterial,
       CallImportKey ''PBKDF2'' (textEncode P passphrase)]"
    using assms(2,6,7,8) by (simp add: kdfCalls_def)
  have macC: "kdfCalls P passphrase ''mac'' 32 (asString (getProp payload ''salt'')) =
      [CallDeriveBits salt (textEncode P ''mac'') derivedKey 256,
       CallDeriveKey salt 100000 keyMaterial,
       CallImportKey ''PBKDF2'' (textEncode P passphrase)]"
    using assms(2,6,7,9) by (simp add: kdfCalls_def)
  show ?thesis
    using assms(1,2,3,4,5,10,11)
    by (simp add: verifyAndDecrypt_def catchE_def bindE_def liftE_def throwE_def HKDF_run
          enc mac encC macC subtleImportKey_def subtleVerify_def subtleDecrypt_def
          concatUint8Arrays_def Let_def
        split: sum.splits)
qed

lemma demo_tag_mismatch: "hmacVerify demoPlatform k [0, 0, 0] d = Inr False"
proof -
  have "length (demoTag k d) = 32" by (simp add: demoTag_def)
  then have "length [0, 0, 0 :: 8 word] \<noteq> length (demoTag k d)" by simp
  then have "[0, 0, 0] \<noteq> demoTag k d" by metis
  then show ?thesis by simp
qed

text \<open>Instance of C6: a well-formed envelope whose \<open>mac\<close> field is three zero bytes, on
  the demonstration provider. It is rejected with the HMAC error, and the last operation
  invoked is the verification.\<close>

theorem mac_mismatch_fails_closed_witness:
  "fst (verifyAndDecrypt demoPlatform
          (JObj [(''v'', JNum 1), (''ts'', JNum 5), (''salt'', JStr ''AAAA''),
                 (''iv'', JStr ''AAAA''), (''ct'', JStr ''AAAA''), (''mac'', JStr ''AAAA'')])
          ''pw'' (demoWorld []))
     = Inl (Error ''Decryption failed: HMAC verification failed'')
   \<and> (\<exists>hmacKey rest.
         callsSince (demoWorld [])
           (snd (verifyAndDecrypt demoPlatform
              (JObj [(''v'', JNum 1), (''ts'', JNum 5), (''salt'', JStr ''AAAA''),
                     (''iv'', JStr ''AAAA''), (''ct'', JStr ''AAAA''), (''mac'', JStr ''AAAA'')])
              ''pw'' (demoWorld [])))
         = CallVerify hmacKey [0, 0, 0] [0, 0, 0, 0, 0, 0, 0, 0, 0] # rest
         \<and> (\<forall>iv' k' c. CallDecrypt iv' k' c \<notin> set rest))"
proof -
  let ?payload = "JObj [(''v'', JNum 1), (''ts'', JNum 5), (''salt'', JStr ''AAAA''),
                 (''iv'', JStr ''AAAA''), (''ct'', JStr ''AAAA''), (''mac'', JStr ''AAAA'')]"
  let ?km = "textEncode demoPlatform ''pw''"
  let ?dk = "?km @ [0, 0, 0]"
  let ?enc = "take (nat (256 div 8))
                ([0, 0, 0] @ textEncode demoPlatform ''enc'' @ ?dk @ replicate (nat (256 div 8)) 0)"
  let ?mac = "take (nat (256 div 8))
                ([0, 0, 0] @ textEncode demoPlatform ''mac'' @ ?dk @ replicate (nat (256 div 8)) 0)"
  have s: "\<not> invalidStructure ?payload" by (simp add: invalidStructure_def)
  have d1: "base64urlDecode (asString (getProp ?payload ''salt'')) = Inr [0, 0, 0]"
    and d2: "base64urlDecode (asString (getProp ?payload ''iv'')) = Inr [0, 0, 0]"
    and d3: "base64urlDecode (asString (getProp ?payload ''ct'')) = Inr [0, 0, 0]"
    and d4: "base64urlDecode (asString (getProp ?payload ''mac'')) = Inr [0, 0, 0]"
    by (simp_all add: decode_AAAA)
  have k1: "importKey demoPlatform ''PBKDF2'' (textEncode demoPlatform ''pw'') = Inr ?km"
    by (simp only: demo_simps(1))
  have k2: "pbkdf2DeriveKey demoPlatform [0, 0, 0] 100000 ?km = Inr ?dk"
    by (simp only: demo_simps(2))
  have k3: "hkdfDeriveBits demoPlatform [0, 0, 0] (textEncode demoPlatform ''enc'') ?dk 256 = Inr ?enc"
    by (simp only: demo_simps(3))
  have k4: "hkdfDeriveBits demoPlatform [0, 0, 0] (textEncode demoPlatform ''mac'') ?dk 256 = Inr ?mac"
    by (simp only: demo_simps(3))
  have k5: "importKey demoPlatform ''AES-GCM'' ?enc = Inr ?enc"
    by (simp only: demo_simps(1))
  have k6: "importKey demoPlatform ''HMAC'' ?mac = Inr ?mac"
    by (simp only: demo_simps(1))
  have mm: "hmacVerify demoPlatform ?mac [0, 0, 0] ([0, 0, 0] @ [0, 0, 0] @ [0, 0, 0]) = Inr False"
    by (rule demo_tag_mismatch)
  from mac_mismatch_fails_closed[OF s d1 d2 d3 d4 k1 k2 k3 k4 k5 k6, of "demoWorld []"] mm
  show ?thesis by simp
qed

section \<open>The result contract of loadState\<close>

lemma post_returnE: "Q x \<Longrightarrow> post (returnE x) Q"
  by (simp add: post_def returnE_def)

lemma post_throwE: "post (throwE e) Q"
  by (simp add: post_def throwE_def)

lemma post_bindE: "(\<And>x. post (f x) Q) \<Longrightarrow> post (bindE m f) Q"
  by (auto simp: post_def bindE_def split: sum.splits prod.splits)

lemma post_catchE: "post m Q \<Longrightarrow> (\<And>e. post (h e) Q) \<Longrightarrow> post (catchE m h) Q"
  by (auto simp: post_def catchE_def split: sum.splits prod.splits)

lemma post_if: "(c \<Longrightarrow> post a Q) \<Longrightarrow> (\<not> c \<Longrightarrow> post b Q) \<Longrightarrow> post (if c then a else b) Q"
  by simp

lemma valid_simps [simp]:
  "validOutcome networkOutcome" "validOutcome integrityOutcome" "validOutcome noStateOutcome"
  "validOutcome \<lparr>state = v, error = None\<rparr>"
  by (simp_all add: validOutcome_def networkOutcome_def integrityOutcome_def noStateOutcome_def)

lemma post_tryVersion:
  "post (tryVersion P passphrase base ident hs version)
        (\<lambda>r. case r of Some out \<Rightarrow> validOutcome out | None \<Rightarrow> True)"
  unfolding tryVersion_def
  by (intro post_catchE post_bindE post_if post_returnE) simp_all

lemma post_scanVersions: "post (scanVersions P passphrase base ident hs vs) validOutcome"
proof (induction vs)
  case Nil
  then show ?case by (simp add: post_def)
next
  case (Cons version rest)
  show ?case
    unfolding post_def
  proof (intro allI impI)
    fix w x w'
    assume run: "scanVersions P passphrase base ident hs (version # rest) w = (Inr x, w')"
    obtain r w1 where t: "tryVersion P passphrase base ident hs version w = (r, w1)"
      by (cases "tryVersion P passphrase base ident hs version w")
    show "validOutcome x"
    proof (cases r)
      case (Inl e)
      with run t show ?thesis by simp
    next
      case (Inr o1)
      show ?thesis
      proof (cases o1)
        case None
        with run t Inr have "scanVersions P passphrase base ident hs rest w1 = (Inr x, w')" by simp
        with Cons.IH show ?thesis by (auto simp: post_def)
      next
        case (Some out)
        with run t Inr have "x = out" by simp
        moreover have "validOutcome out"
        proof -
          from t Inr Some
          have "tryVersion P passphrase base ident hs version w = (Inr (Some out), w1)" by simp
          with post_tryVersion[of P passphrase base ident hs version]
          have "case Some out of Some out \<Rightarrow> validOutcome out | None \<Rightarrow> True"
            unfolding post_def by blast
          then show ?thesis by simp
        qed
        ultimately show ?thesis by simp
      qed
    qed
  qed
qed

lemma post_listFallback: "post (listFallback P passphrase base ident hs) validOutcome"
  unfolding listFallback_def
  by (intro post_catchE post_bindE post_if post_returnE post_throwE)
     (auto intro: post_returnE post_scanVersions split: jsval.splits)

lemma post_latestVersion:
  "post (latestVersion P passphrase base ident hs latestTs)
        (\<lambda>r. case r of Some out \<Rightarrow> validOutcome out | None \<Rightarrow> True)"
  unfolding latestVersion_def
  by (cases latestTs)
     (auto intro!: post_catchE post_bindE post_if post_returnE post_throwE)

lemma post_latestPointer:
  "post (latestPointer base ident hs)
        (\<lambda>r. case r of Inl out \<Rightarrow> validOutcome out | Inr ts \<Rightarrow> True)"
  unfolding latestPointer_def
  by (intro post_catchE post_bindE post_if post_returnE post_throwE) simp_all

text \<open>
  C8. For every passphrase, provider and world (so for every behaviour of the server),
  \<open>loadState\<close> returns an outcome and never an exception; the \<open>error\<close> of the outcome is
  \<^verbatim>\<open>null\<close>, \<^verbatim>\<open>"network"\<close> or \<^verbatim>\<open>"integrity"\<close>, and in the two error cases \<open>state\<close> is
  \<^verbatim>\<open>null\<close>.
\<close>

theorem loadState_never_raises:
  "\<exists>out w'. loadState P passphrase w = (Inr out, w') \<and>
     (error out = None \<or>
      (error out \<in> {Some ''network'', Some ''integrity''} \<and> state out = JNull))"
proof -
  let ?body = "bindE (deriveId P passphrase) (\<lambda>id.
        bindE getAppCheckToken (\<lambda>token.
        let hs = appCheckHeader token in
        bindE getBaseUrl (\<lambda>base.
        bindE (latestPointer base id hs) (\<lambda>r.
        case r of
          Inl out \<Rightarrow> returnE out
        | Inr latestTs \<Rightarrow>
            bindE (latestVersion P passphrase base id hs latestTs) (\<lambda>r'.
            case r' of
              Some out \<Rightarrow> returnE out
            | None \<Rightarrow> listFallback P passphrase base id hs)))))"
  have inner: "post (bindE (latestVersion P passphrase base i hs latestTs) (\<lambda>r'.
            case r' of
              Some out \<Rightarrow> returnE out
            | None \<Rightarrow> listFallback P passphrase base i hs)) validOutcome" for base i hs latestTs
    using post_latestVersion[of P passphrase base i hs latestTs]
          post_listFallback[of P passphrase base i hs]
    by (auto simp: post_def bindE_def returnE_def split: sum.splits prod.splits option.splits)
  have mid: "post (bindE (latestPointer base i hs) (\<lambda>r.
        case r of
          Inl out \<Rightarrow> returnE out
        | Inr latestTs \<Rightarrow>
            bindE (latestVersion P passphrase base i hs latestTs) (\<lambda>r'.
            case r' of
              Some out \<Rightarrow> returnE out
            | None \<Rightarrow> listFallback P passphrase base i hs))) validOutcome" for base i hs
    using post_latestPointer[of base i hs] inner[of base i hs]
    by (auto simp: post_def bindE_def returnE_def split: sum.splits prod.splits)
  have body: "post ?body validOutcome"
    unfolding Let_def by (intro post_bindE mid)
  have ls: "loadState P passphrase = catchE ?body (\<lambda>error. returnE networkOutcome)"
    by (simp add: loadState_def)
  obtain r w1 where run: "?body w = (r, w1)" by (cases "?body w")
  show ?thesis
  proof (cases r)
    case (Inl e)
    with run have "loadState P passphrase w = (Inr networkOutcome, w1)"
      unfolding ls by (simp add: catchE_def returnE_def)
    then show ?thesis by (auto simp: networkOutcome_def)
  next
    case (Inr out)
    with run body have v: "validOutcome out" by (auto simp: post_def)
    from Inr run have "loadState P passphrase w = (Inr out, w1)"
      unfolding ls by (simp add: catchE_def)
    with v show ?thesis by (auto simp: validOutcome_def)
  qed
qed

section \<open>The list fallback on a store that answers with server errors\<close>

lemmas load_eval =
  loadState_def demo_deriveId getAppCheckToken_def demoWorld_def appCheckHeader_def
  getBaseUrl_def latestPointer_def latestVersion_def listFallback_def tryVersion_def
  sortedVersions_def fetch_def scripted_def ok_def bindE_def catchE_def returnE_def throwE_def
  liftE_def getReq_def Let_def statusOnly_def okJson_def

lemma digit5: "numToString 5 = ''5''" "numToString 3 = ''3''" "numToString 7 = ''7''"
  by (simp_all add: numToString_def digitsOf.simps)

text \<open>
  C4 on the code. The pointer is missing (404), the list holds one version, and the GET
  of that version answers 500: the loop is not left with a network error; it runs to its
  end and \<open>loadState\<close> reports an integrity error.
\<close>

theorem list_scan_ignores_server_error:
  "fst (loadState demoPlatform ''pw''
          (demoWorld [statusOnly 404, okJson (JArr [JObj [(''ts'', JNum 5)]]), statusOnly 500]))
     = Inr integrityOutcome
   \<and> map url (sent (snd (loadState demoPlatform ''pw''
          (demoWorld [statusOnly 404, okJson (JArr [JObj [(''ts'', JNum 5)]]), statusOnly 500]))))
     = [''https://store.example/'' @ base64urlEncode (map of_nat [0 ..< 16]) @ ''/v1/5'',
        ''https://store.example/'' @ base64urlEncode (map of_nat [0 ..< 16]) @ ''/v1?limit=20'',
        ''https://store.example/'' @ base64urlEncode (map of_nat [0 ..< 16]) @ ''/v1/latest'']
   \<and> integrityOutcome \<noteq> networkOutcome"
  by (simp add: load_eval digit5 integrityOutcome_def networkOutcome_def)

text \<open>
  C5 on the code. The list holds two versions whose GETs answer 500 and 503: \<open>loadState\<close>
  reports an integrity error although no payload was ever handed to decryption (no HMAC
  verification and no AES-GCM decryption was invoked), so no failure was a decrypt
  failure.
\<close>

theorem integrity_without_decrypt_failure:
  "fst (loadState demoPlatform ''pw''
          (demoWorld [statusOnly 404, okJson (JArr [JObj [(''ts'', JNum 3)], JObj [(''ts'', JNum 7)]]),
                      statusOnly 500, statusOnly 503]))
     = Inr integrityOutcome
   \<and> map url (sent (snd (loadState demoPlatform ''pw''
          (demoWorld [statusOnly 404, okJson (JArr [JObj [(''ts'', JNum 3)], JObj [(''ts'', JNum 7)]]),
                      statusOnly 500, statusOnly 503]))))
     = [''https://store.example/'' @ base64urlEncode (map of_nat [0 ..< 16]) @ ''/v1/3'',
        ''https://store.example/'' @ base64urlEncode (map of_nat [0 ..< 16]) @ ''/v1/7'',
        ''https://store.example/'' @ base64urlEncode (map of_nat [0 ..< 16]) @ ''/v1?limit=20'',
        ''https://store.example/'' @ base64urlEncode (map of_nat [0 ..< 16]) @ ''/v1/latest'']
   \<and> calls (snd (loadState demoPlatform ''pw''
          (demoWorld [statusOnly 404, okJson (JArr [JObj [(''ts'', JNum 3)], JObj [(''ts'', JNum 7)]]),
                      statusOnly 500, statusOnly 503])))
     = [CallDeriveBits (map of_nat [0 ..< 16]) [105, 100] ([112, 119] @ map of_nat [0 ..< 16]) 128,
        CallDeriveKey (map of_nat [0 ..< 16]) 100000 [112, 119],
        CallImportKey ''PBKDF2'' [112, 119]]"
  by (simp add: load_eval digit5 kdfCalls_def base64url_roundtrip)

section \<open>Debounced saving\<close>

lemma base64urlEncode_eq_iff [simp]: "(base64urlEncode a = base64urlEncode b) = (a = b)"
  using base64urlEncode_inj by blast

lemma first_salt:
  "(map of_nat [0 ..< 16] :: bytes) = [0, 1, 2, 3, 4, 5, 6, 7, 8, 9, 10, 11, 12, 13, 14, 15]"
  by (simp add: upt_rec)

lemmas save_eval =
  saveState_def demo_deriveId demoWorld_def setTimeout_def clearTimeout_def
  bindE_def returnE_def Let_def statusOnly_def

lemmas fire_eval =
  advanceTo_def timerCallback_def saveStateInternal_def deleteTimer_def encryptJson_def
  getRandomValues_def HKDF_run demo_kdfValue subtleImportKey_def subtleEncrypt_def subtleSign_def
  dateNow_def getAppCheckToken_def appCheckHeader_def getBaseUrl_def fetch_def scripted_def
  putReq_def ok_def catchE_def throwE_def

text \<open>
  C3 on the code. Two \<open>saveState\<close> calls with the same passphrase, the second
  immediately after the first (the clock has not moved), on a store that accepts every
  PUT: the two calls derive different identifiers, so the second finds no timer to cancel
  and two timers are pending; when the debounce delay has passed both fire, and
  \<open>saveStateInternal\<close> has run twice, first with the first payload, then with the second.
\<close>

theorem debounce_does_not_coalesce:
  "timers (snd (saveState demoPlatform ''pw'' (JStr ''two'')
             (snd (saveState demoPlatform ''pw'' (JStr ''one'')
                (demoWorld [statusOnly 200, statusOnly 200, statusOnly 200, statusOnly 200])))))
     = [(0, 505, \<lparr>taskPassphrase = ''pw'', taskState = JStr ''one'',
                    taskId = base64urlEncode (map of_nat [0 ..< 16])\<rparr>),
        (1, 505, \<lparr>taskPassphrase = ''pw'', taskState = JStr ''two'',
                    taskId = base64urlEncode (map of_nat [16 ..< 32])\<rparr>)]
   \<and> saves (advanceTo demoPlatform 1000
         (snd (saveState demoPlatform ''pw'' (JStr ''two'')
            (snd (saveState demoPlatform ''pw'' (JStr ''one'')
               (demoWorld [statusOnly 200, statusOnly 200, statusOnly 200, statusOnly 200]))))))
     = [(''pw'', JStr ''two''), (''pw'', JStr ''one'')]"
  by (simp add: save_eval first_salt fire_eval)

end
